theory Spec2Isabelle
  imports Main
begin

section \<open>Errors\<close>

text \<open>
  The custom error classes of \<^verbatim>\<open>errors.js\<close>, together with the exceptions the
  JavaScript engine and the HTTP client raise on their own.  Every network and
  extraction error carries the URL (or file path) its constructor was given.
\<close>

datatype error =
    UnsuccessfulResponseError string
  | NoResponseError string
  | FileWriteError string
  | CatalogPageCountNotFoundError
  | BookCategoryNotFoundError string
  | BookTitleNotFoundError string
  | BookRatingNotFoundError string
  | BookDescriptionNotFoundError string
  | BookProductInfoNotFoundError string
  | BookImageURLFoundError string
  | TypeError string
  | ReferenceError string
  | AxiosError string
  | SystemError string

fun message :: "error \<Rightarrow> string" where
  "message (UnsuccessfulResponseError requestUrl) =
     ''Unsuccessful network response returned for '' @ requestUrl"
| "message (NoResponseError requestUrl) =
     ''No response received for the request '' @ requestUrl"
| "message (FileWriteError filePath) = ''Data could not be written to '' @ filePath"
| "message CatalogPageCountNotFoundError =
     ''Could not locate or extract total catalog page count''"
| "message (BookCategoryNotFoundError bookPageUrl) =
     ''Could not locate the book category breadcrumb on '' @ bookPageUrl"
| "message (BookTitleNotFoundError bookPageUrl) =
     ''Could not locate the book title on '' @ bookPageUrl"
| "message (BookRatingNotFoundError bookPageUrl) =
     ''Could not locate the book rating on '' @ bookPageUrl"
| "message (BookDescriptionNotFoundError bookPageUrl) =
     ''Could not locate the book description on '' @ bookPageUrl"
| "message (BookProductInfoNotFoundError bookPageUrl) =
     ''Could not locate the book product info on '' @ bookPageUrl"
| "message (BookImageURLFoundError bookPageUrl) =
     ''Could not locate the book image URL on '' @ bookPageUrl"
| "message (TypeError m) = m"
| "message (ReferenceError name) = name @ '' is not defined''"
| "message (AxiosError m) = m"
| "message (SystemError m) = m"

text \<open>
  \<^verbatim>\<open>try { body } catch (error) { handler }\<close>: the handler runs on every exception
  of the body, whatever its class.  Sequencing stops at the first exception.
\<close>

definition try_catch :: "error + 'a \<Rightarrow> (error \<Rightarrow> error + 'a) \<Rightarrow> error + 'a" where
  "try_catch body handler = (case body of Inl e \<Rightarrow> handler e | Inr v \<Rightarrow> Inr v)"

definition and_then :: "error + 'a \<Rightarrow> ('a \<Rightarrow> error + 'b) \<Rightarrow> error + 'b" where
  "and_then m f = (case m of Inl e \<Rightarrow> Inl e | Inr v \<Rightarrow> f v)"

text \<open>
  Reading an identifier: the bindings in scope are an association list; an
  identifier that no enclosing scope binds raises \<^verbatim>\<open>ReferenceError\<close>.
\<close>

definition read_identifier :: "(string \<times> string) list \<Rightarrow> string \<Rightarrow> error + string" where
  "read_identifier scope name =
     (case map_of scope name of None \<Rightarrow> Inl (ReferenceError name) | Some v \<Rightarrow> Inr v)"

section \<open>JavaScript values and strings\<close>

datatype 'o jsval = Undefined | Null | Str string | Obj 'o

fun truthy :: "'o jsval \<Rightarrow> bool" where
  "truthy Undefined = False"
| "truthy Null = False"
| "truthy (Str s) = (s \<noteq> [])"
| "truthy (Obj _) = True"

text \<open>
  Strings are lists of 8-bit code units.  \<^verbatim>\<open>String.prototype.trim\<close> strips white
  space and line terminators at both ends; in the 8-bit range these are the code
  units 9 to 13, 32 and 160.
\<close>

definition is_space :: "char \<Rightarrow> bool" where
  "is_space c = (let n = (of_char c :: nat) in (9 \<le> n \<and> n \<le> 13) \<or> n = 32 \<or> n = 160)"

definition is_digit :: "char \<Rightarrow> bool" where
  "is_digit c = (let n = (of_char c :: nat) in 48 \<le> n \<and> n \<le> 57)"

definition is_upper :: "char \<Rightarrow> bool" where
  "is_upper c = (let n = (of_char c :: nat) in 65 \<le> n \<and> n \<le> 90)"

definition is_lower :: "char \<Rightarrow> bool" where
  "is_lower c = (let n = (of_char c :: nat) in 97 \<le> n \<and> n \<le> 122)"

definition is_alnum :: "char \<Rightarrow> bool" where
  "is_alnum c = (is_digit c \<or> is_upper c \<or> is_lower c)"

definition trim :: "string \<Rightarrow> string" where
  "trim s = rev (dropWhile is_space (rev (dropWhile is_space s)))"

text \<open>\<^verbatim>\<open>x.trim()\<close> where \<^verbatim>\<open>x\<close> may be \<^verbatim>\<open>undefined\<close>.\<close>

definition trim_of :: "string option \<Rightarrow> error + string" where
  "trim_of x =
     (case x of
        None \<Rightarrow> Inl (TypeError ''Cannot read properties of undefined (reading 'trim')'')
      | Some s \<Rightarrow> Inr (trim s))"

text \<open>
  \<^verbatim>\<open>s.match(re)\<close> yields \<^verbatim>\<open>null\<close> or the match array, whose element 0 is the
  matched text; \<^verbatim>\<open>.at(0)\<close> on \<^verbatim>\<open>null\<close> raises \<^verbatim>\<open>TypeError\<close>.
\<close>

definition at0 :: "string option \<Rightarrow> error + string" where
  "at0 m =
     (case m of
        None \<Rightarrow> Inl (TypeError ''Cannot read properties of null (reading 'at')'')
      | Some s \<Rightarrow> Inr s)"

text \<open>
  The three regular expressions of the program all end in \<^verbatim>\<open>$\<close>, so a match is
  a suffix of the subject; the search takes the leftmost start position whose
  suffix matches.
  \<^item> \<^verbatim>\<open>/\d+$/\<close>: a non-empty suffix of digits;
  \<^item> \<^verbatim>\<open>/[A-Z][a-z]+$/\<close>: an upper-case letter followed by one or more lower-case
    letters up to the end;
  \<^item> \<^verbatim>\<open>/(?!\.)[a-z0-9]+$/i\<close>: a non-empty suffix of letters and digits (its first
    character is then not a dot, so the look-ahead holds).
\<close>

fun match_suffix :: "(string \<Rightarrow> bool) \<Rightarrow> string \<Rightarrow> string option" where
  "match_suffix p [] = None"
| "match_suffix p (c # cs) = (if p (c # cs) then Some (c # cs) else match_suffix p cs)"

definition re_digits :: "string \<Rightarrow> bool" where
  "re_digits s = (s \<noteq> [] \<and> list_all is_digit s)"

definition re_capitalised :: "string \<Rightarrow> bool" where
  "re_capitalised s =
     (case s of [] \<Rightarrow> False | c # cs \<Rightarrow> is_upper c \<and> cs \<noteq> [] \<and> list_all is_lower cs)"

definition re_alnum :: "string \<Rightarrow> bool" where
  "re_alnum s =
     (case s of [] \<Rightarrow> False | c # cs \<Rightarrow> c \<noteq> CHR ''.'' \<and> list_all is_alnum (c # cs))"

text \<open>\<^verbatim>\<open>Number(ds)\<close> on a string of decimal digits, and \<^verbatim>\<open>`${n}`\<close> on a number.\<close>

definition digit_value :: "char \<Rightarrow> nat" where
  "digit_value c = of_char c - 48"

definition Number :: "string \<Rightarrow> nat" where
  "Number ds = foldl (\<lambda>n c. 10 * n + digit_value c) 0 ds"

definition digit_char :: "nat \<Rightarrow> char" where
  "digit_char d = char_of (48 + d)"

fun decimal :: "nat \<Rightarrow> string" where
  "decimal n = (if n < 10 then [digit_char n] else decimal (n div 10) @ [digit_char (n mod 10)])"

declare decimal.simps [simp del]

section \<open>Parsed documents (the Cheerio query interface)\<close>

text \<open>
  A loaded document answers a selector with the matched elements in document
  order.  Of an element the program reads attributes and the text content only.
\<close>

record element =
  el_attrs :: "(string \<times> string) list"
  el_text :: string

type_synonym selection = "element list"
type_synonym document = "string \<Rightarrow> selection"

text \<open>\<^verbatim>\<open>.eq(i)\<close>: the selection reduced to the element at index i, counted from the
  end when i is negative; empty when there is no such element.\<close>

definition eq_at :: "int \<Rightarrow> selection \<Rightarrow> selection" where
  "eq_at i els =
     (let position = (if i < 0 then int (length els) + i else i)
      in if position < 0 \<or> int (length els) \<le> position then [] else [els ! nat position])"

text \<open>\<^verbatim>\<open>.attr(name)\<close>: the attribute of the first element, \<^verbatim>\<open>undefined\<close> when the
  selection is empty or the attribute is missing.\<close>

definition attr :: "string \<Rightarrow> selection \<Rightarrow> string option" where
  "attr name els = (case els of [] \<Rightarrow> None | e # _ \<Rightarrow> map_of (el_attrs e) name)"

text \<open>\<^verbatim>\<open>.text()\<close>: the text contents of all elements of the selection, combined.\<close>

definition text_of :: "selection \<Rightarrow> string" where
  "text_of els = concat (map el_text els)"

subsection \<open>selectors.js\<close>

definition paginationSelector :: string where
  "paginationSelector = ''li.current''"

definition bookAnchorSelector :: string where
  "bookAnchorSelector = ''.product_pod h3 a''"

definition sel_breadcrumbs :: string where
  "sel_breadcrumbs = ''.breadcrumb li''"

definition sel_title :: string where
  "sel_title = ''.product_main > h1''"

definition sel_rating :: string where
  "sel_rating = ''.star-rating''"

definition sel_description :: string where
  "sel_description = ''#product_description + p''"

definition sel_productInfoKeys :: string where
  "sel_productInfoKeys = ''th''"

definition sel_productInfoData :: string where
  "sel_productInfoData = ''td''"

definition sel_image :: string where
  "sel_image = ''.thumbnail img''"

section \<open>The platform\<close>

text \<open>
  What the program calls but does not define: the outcome of an HTTP GET after
  the client's retries (no completed exchange, or a response with its status and
  body; the body of a page is taken in parsed form, so \<^verbatim>\<open>cheerio.load\<close> is the
  identity), the \<^verbatim>\<open>href\<close> of \<^verbatim>\<open>new URL(relative, base)\<close> (which throws on an
  invalid URL), \<^verbatim>\<open>path.resolve\<close>, \<^verbatim>\<open>path.dirname\<close>, whether a directory can be
  made and a file written, and the successive readings of \<^verbatim>\<open>performance.now()\<close>
  (in whole milliseconds, numbered from 0 in the order of the calls).
\<close>

datatype 'd http_outcome = No_Exchange | Response nat 'd

record platform =
  http_page :: "string \<Rightarrow> document http_outcome"
  http_asset :: "string \<Rightarrow> string http_outcome"
  new_URL :: "string \<Rightarrow> string \<Rightarrow> error + string"
  path_resolve :: "string \<Rightarrow> string \<Rightarrow> string"
  path_dirname :: "string \<Rightarrow> string"
  mkdir_ok :: "string \<Rightarrow> bool"
  write_ok :: "string \<Rightarrow> bool"
  performance_now :: "nat \<Rightarrow> nat"

text \<open>\<^verbatim>\<open>axios.get\<close> with the default status validation: it resolves with the
  response on a 2xx status and rejects otherwise.\<close>

definition axios_get :: "(string \<Rightarrow> 'd http_outcome) \<Rightarrow> string \<Rightarrow> error + (nat \<times> 'd)" where
  "axios_get net url =
     (case net url of
        No_Exchange \<Rightarrow> Inl (AxiosError ''Network Error'')
      | Response status body \<Rightarrow>
          if 200 \<le> status \<and> status < 300 then Inr (status, body)
          else Inl (AxiosError (''Request failed with status code '' @ decimal status)))"

section \<open>crawler.js\<close>

definition getHtmlResponse :: "platform \<Rightarrow> string \<Rightarrow> error + document" where
  "getHtmlResponse P url =
     try_catch
       (and_then (axios_get (http_page P) url)
          (\<lambda>(status, body).
             if status = 200 then Inr body else Inl (UnsuccessfulResponseError url)))
       (\<lambda>error. Inl (NoResponseError url))"

definition getAssetStream :: "platform \<Rightarrow> string \<Rightarrow> error + string" where
  "getAssetStream P assetUrl =
     try_catch
       (and_then (axios_get (http_asset P) assetUrl)
          (\<lambda>(status, body).
             if status = 200 then Inr body else Inl (UnsuccessfulResponseError assetUrl)))
       (\<lambda>error. Inl (NoResponseError assetUrl))"

section \<open>dataExtractors.js\<close>

record product_info_item =
  key :: string
  val :: string

definition extractBookCategory :: "document \<Rightarrow> string \<Rightarrow> error + string" where
  "extractBookCategory doc bookPageUrl =
     (let category = eq_at (- 2) (doc sel_breadcrumbs)
      in if \<not> truthy (Obj category) then Inl (BookCategoryNotFoundError bookPageUrl)
         else Inr (trim (text_of category)))"

definition extractBookTitle :: "document \<Rightarrow> string \<Rightarrow> error + string" where
  "extractBookTitle doc bookPageUrl =
     (let titleElementArray = doc sel_title
      in if length titleElementArray = 0 then Inl (BookTitleNotFoundError bookPageUrl)
         else Inr (trim (text_of (eq_at 0 titleElementArray))))"

text \<open>
  \<^verbatim>\<open>extractBookRating\<close>, \<^verbatim>\<open>extractBookDescription\<close> and
  \<^verbatim>\<open>extractBookProductInfo\<close> take the document only; their handlers read
  \<^verbatim>\<open>bookPageUrl\<close>, which neither the function nor the module binds.
\<close>

definition extractBookRating :: "document \<Rightarrow> error + string" where
  "extractBookRating doc =
     try_catch
       (and_then (trim_of (attr ''class'' (eq_at 0 (doc sel_rating))))
          (\<lambda>s. at0 (match_suffix re_capitalised s)))
       (\<lambda>error. and_then (read_identifier [] ''bookPageUrl'')
          (\<lambda>bookPageUrl. Inl (BookRatingNotFoundError bookPageUrl)))"

definition extractBookDescription :: "document \<Rightarrow> error + string" where
  "extractBookDescription doc =
     try_catch
       (Inr (trim (text_of (doc sel_description))))
       (\<lambda>error. and_then (read_identifier [] ''bookPageUrl'')
          (\<lambda>bookPageUrl. Inl (BookDescriptionNotFoundError bookPageUrl)))"

text \<open>The pairing loop; \<^verbatim>\<open>index\<close> stays below \<^verbatim>\<open>items\<close>, which is at most the
  length of either array, so both reads are in range.\<close>

function combine :: "string list \<Rightarrow> string list \<Rightarrow> nat \<Rightarrow> nat \<Rightarrow> product_info_item list
    \<Rightarrow> product_info_item list" where
  "combine productInfoKeys productInfoData items index productInfo =
     (if index < items
      then combine productInfoKeys productInfoData items (Suc index)
             (productInfo @ [\<lparr>key = productInfoKeys ! index, val = productInfoData ! index\<rparr>])
      else productInfo)"
  by pat_completeness auto
termination
  by (relation "measure (\<lambda>(ks, ds, items, index, acc). items - index)") auto

declare combine.simps [simp del]

definition extractBookProductInfo :: "document \<Rightarrow> error + product_info_item list" where
  "extractBookProductInfo doc =
     try_catch
       (let productInfoKeys = map (\<lambda>element. trim (text_of [element])) (doc sel_productInfoKeys);
            productInfoData = map (\<lambda>element. trim (text_of [element])) (doc sel_productInfoData);
            items = (if length productInfoKeys < length productInfoData
                     then length productInfoKeys else length productInfoData)
        in Inr (combine productInfoKeys productInfoData items 0 []))
       (\<lambda>error. and_then (read_identifier [] ''bookPageUrl'')
          (\<lambda>bookPageUrl. Inl (BookProductInfoNotFoundError bookPageUrl)))"

definition extractBookImageUrl :: "platform \<Rightarrow> document \<Rightarrow> string \<Rightarrow> error + string" where
  "extractBookImageUrl P doc bookPageUrl =
     try_catch
       (and_then (trim_of (attr ''src'' (doc sel_image)))
          (\<lambda>src. new_URL P src bookPageUrl))
       (\<lambda>error. Inl (BookImageURLFoundError bookPageUrl))"

section \<open>logger.js, promises and the wait-for-all fan-out\<close>

datatype level = LInfo | LWarn | LError

type_synonym log = "(level \<times> string) list"

text \<open>The outcome of an \<^verbatim>\<open>async\<close> function: it returns or it throws.\<close>

datatype 'a settled = Fulfilled 'a | Rejected error

definition settle :: "error + 'a \<Rightarrow> 'a settled" where
  "settle r = (case r of Inl e \<Rightarrow> Rejected e | Inr v \<Rightarrow> Fulfilled v)"

text \<open>\<^verbatim>\<open>result.value\<close> of a settled result whose value is an object or
  \<^verbatim>\<open>null\<close>: a rejected result has no such property.\<close>

fun result_value :: "'o option settled \<Rightarrow> 'o jsval" where
  "result_value (Fulfilled (Some v)) = Obj v"
| "result_value (Fulfilled None) = Null"
| "result_value (Rejected _) = Undefined"

text \<open>
  \<^verbatim>\<open>Promise.allSettled\<close> over operations that were all started at once.  A
  page operation awaits its one network request and then runs to its end without
  suspending again, so its log entries are written together, when the request
  completes; a download has written its file when it completes.  \<^verbatim>\<open>arrival i\<close>
  is the completion time of operation i, and operations complete in the order
  of these times.  Each completion stores the outcome at the operation's own
  index, and the combined promise resolves once every slot is filled.  \<^verbatim>\<open>None\<close> stands for a combined
  promise that stays pending.
\<close>

definition completion_order :: "(nat \<Rightarrow> nat) \<Rightarrow> nat \<Rightarrow> nat list" where
  "completion_order arrival n = sort_key arrival [0..<n]"

definition allSettled ::
    "(nat \<Rightarrow> nat) \<Rightarrow> ('e list \<times> 'a settled) list \<Rightarrow> ('e list \<times> 'a settled list) option" where
  "allSettled arrival operations =
     (let order = completion_order arrival (length operations);
          slots = foldl (\<lambda>values i. values[i := Some (snd (operations ! i))])
                    (replicate (length operations) None) order;
          effects = concat (map (\<lambda>i. fst (operations ! i)) order)
      in case those slots of None \<Rightarrow> None | Some results \<Rightarrow> Some (effects, results))"

section \<open>scrapingUtils.js\<close>

text \<open>The template literal \<^verbatim>\<open>`catalogue/page-${pageNum}.html`\<close>.\<close>

definition page_template :: "nat \<Rightarrow> string" where
  "page_template pageNum = ''catalogue/page-'' @ decimal pageNum @ ''.html''"

function catalogPageUrls_loop ::
    "platform \<Rightarrow> string \<Rightarrow> nat \<Rightarrow> nat \<Rightarrow> string list \<Rightarrow> error + string list" where
  "catalogPageUrls_loop P baseUrl pageNum numOfCatalogPages catalogPageUrls =
     (if pageNum \<le> numOfCatalogPages
      then (case new_URL P (page_template pageNum) baseUrl of
              Inl e \<Rightarrow> Inl e
            | Inr href \<Rightarrow>
                catalogPageUrls_loop P baseUrl (Suc pageNum) numOfCatalogPages
                  (catalogPageUrls @ [href]))
      else Inr catalogPageUrls)"
  by pat_completeness auto
termination
  by (relation "measure (\<lambda>(P, b, pageNum, n, acc). Suc n - pageNum)") auto

declare catalogPageUrls_loop.simps [simp del]

text \<open>The result \<^verbatim>\<open>Fulfilled None\<close> is the \<^verbatim>\<open>null\<close> returned when the home page
  cannot be loaded.\<close>

definition constructCatalogPageUrls ::
    "platform \<Rightarrow> string \<Rightarrow> log \<times> string list option settled" where
  "constructCatalogPageUrls P baseUrl =
     (case getHtmlResponse P baseUrl of
        Inl error \<Rightarrow> ([(LError, message error)], Fulfilled None)
      | Inr doc \<Rightarrow>
          ([], settle
             (and_then
                (try_catch
                   (and_then (at0 (match_suffix re_digits (trim (text_of (doc paginationSelector)))))
                      (\<lambda>ds. Inr (Number ds)))
                   (\<lambda>error. Inl CatalogPageCountNotFoundError))
                (\<lambda>numOfCatalogPages.
                   and_then (catalogPageUrls_loop P baseUrl 1 numOfCatalogPages [])
                     (\<lambda>catalogPageUrls. Inr (Some catalogPageUrls))))))"

text \<open>The reducer over the anchors of a catalog page: an anchor with a truthy
  \<^verbatim>\<open>href\<close> contributes a URL, any other is counted.\<close>

fun reduce_anchors ::
    "platform \<Rightarrow> string \<Rightarrow> element list \<Rightarrow> string list \<times> nat \<Rightarrow> error + (string list \<times> nat)" where
  "reduce_anchors P baseUrl [] result = Inr result"
| "reduce_anchors P baseUrl (element # rest) (urls, errors) =
     (case attr ''href'' [element] of
        None \<Rightarrow> reduce_anchors P baseUrl rest (urls, Suc errors)
      | Some elementHref \<Rightarrow>
          if truthy (Str elementHref :: unit jsval)
          then (case new_URL P (''catalogue/'' @ elementHref) baseUrl of
                  Inl e \<Rightarrow> Inl e
                | Inr href \<Rightarrow> reduce_anchors P baseUrl rest (urls @ [href], errors))
          else reduce_anchors P baseUrl rest (urls, Suc errors))"

definition constructBookPageUrlsInCatalogPage ::
    "platform \<Rightarrow> string \<Rightarrow> string \<Rightarrow> log \<times> string list settled" where
  "constructBookPageUrlsInCatalogPage P catalogPageUrl baseUrl =
     (case getHtmlResponse P catalogPageUrl of
        Inl error \<Rightarrow> ([(LError, message error)], Fulfilled [])
      | Inr doc \<Rightarrow>
          (case reduce_anchors P baseUrl (doc bookAnchorSelector) ([], 0) of
             Inl e \<Rightarrow> ([], Rejected e)
           | Inr (urls, errors) \<Rightarrow>
               ((if errors > 0
                 then [(LWarn, decimal errors @ '' URL(s) could not be found on '' @ catalogPageUrl
                          @ '' due to href attribute not found'')]
                 else []),
                Fulfilled urls)))"

text \<open>
  \<^verbatim>\<open>result.value\<close> of a page's settled result is its list of URLs, or
  \<^verbatim>\<open>undefined\<close> when the page's operation was rejected; \<^verbatim>\<open>concat\<close> appends the
  elements of a list and appends \<^verbatim>\<open>undefined\<close> itself as one element.  An
  entry of the resulting array is a URL (\<^verbatim>\<open>Some\<close>) or \<^verbatim>\<open>undefined\<close> (\<^verbatim>\<open>None\<close>).
\<close>

fun concat_value :: "string option list \<Rightarrow> string list settled \<Rightarrow> string option list" where
  "concat_value accumulator (Fulfilled currentValue) = accumulator @ map Some currentValue"
| "concat_value accumulator (Rejected _) = accumulator @ [None]"

definition constructAllBookPageUrls ::
    "platform \<Rightarrow> (nat \<Rightarrow> nat) \<Rightarrow> string list \<Rightarrow> string \<Rightarrow> (log \<times> string option list) option" where
  "constructAllBookPageUrls P arrival catalogPageUrls baseUrl =
     (case allSettled arrival
             (map (\<lambda>url. constructBookPageUrlsInCatalogPage P url baseUrl) catalogPageUrls) of
        None \<Rightarrow> None
      | Some (lg, results) \<Rightarrow> Some (lg, foldl concat_value [] results))"

record book_info =
  url :: string
  category :: string
  title :: string
  rating :: string
  description :: string
  productInfo :: "product_info_item list"
  imageUrl :: string

definition parseBookInfo :: "platform \<Rightarrow> document \<Rightarrow> string \<Rightarrow> error + book_info" where
  "parseBookInfo P doc bookPageUrl =
     and_then (extractBookCategory doc bookPageUrl) (\<lambda>c.
     and_then (extractBookTitle doc bookPageUrl) (\<lambda>t.
     and_then (extractBookRating doc) (\<lambda>r.
     and_then (extractBookDescription doc) (\<lambda>d.
     and_then (extractBookProductInfo doc) (\<lambda>p.
     and_then (extractBookImageUrl P doc bookPageUrl) (\<lambda>i.
       Inr \<lparr>url = bookPageUrl, category = c, title = t, rating = r, description = d,
            productInfo = p, imageUrl = i\<rparr>))))))"

definition extractBookInfo :: "platform \<Rightarrow> string \<Rightarrow> log \<times> book_info option settled" where
  "extractBookInfo P bookPageUrl =
     (case getHtmlResponse P bookPageUrl of
        Inl error \<Rightarrow> ([(LError, message error)], Fulfilled None)
      | Inr doc \<Rightarrow>
          ([], settle (and_then (parseBookInfo P doc bookPageUrl) (\<lambda>info. Inr (Some info)))))"

text \<open>
  An entry of the array given to \<^verbatim>\<open>extractAllBookInfo\<close> is a URL or the
  \<^verbatim>\<open>undefined\<close> that \<^verbatim>\<open>constructAllBookPageUrls\<close> can leave behind.  The HTTP
  client rejects a request without a URL, which \<^verbatim>\<open>getHtmlResponse\<close> turns into
  \<^verbatim>\<open>NoResponseError(undefined)\<close>.
\<close>

definition extractBookInfo_entry ::
    "platform \<Rightarrow> string option \<Rightarrow> log \<times> book_info option settled" where
  "extractBookInfo_entry P entry =
     (case entry of
        None \<Rightarrow> ([(LError, message (NoResponseError ''undefined''))], Fulfilled None)
      | Some bookPageUrl \<Rightarrow> extractBookInfo P bookPageUrl)"

definition push_value :: "book_info list \<Rightarrow> book_info option settled \<Rightarrow> book_info list" where
  "push_value bookInfoList result =
     (if truthy (result_value result)
      then (case result_value result of Obj v \<Rightarrow> bookInfoList @ [v] | _ \<Rightarrow> bookInfoList)
      else bookInfoList)"

definition extractAllBookInfo ::
    "platform \<Rightarrow> (nat \<Rightarrow> nat) \<Rightarrow> string option list \<Rightarrow> (log \<times> book_info list) option" where
  "extractAllBookInfo P arrival bookPageUrls =
     (case allSettled arrival (map (extractBookInfo_entry P) bookPageUrls) of
        None \<Rightarrow> None
      | Some (lg, results) \<Rightarrow> Some (lg, foldl push_value [] results))"

section \<open>commonUtils.js\<close>

datatype file_write = Json_file string "book_info list" | Asset_file string string

definition writeToJsonFile ::
    "platform \<Rightarrow> string \<Rightarrow> book_info list \<Rightarrow> file_write list \<times> bool settled" where
  "writeToJsonFile P filePath data =
     (case try_catch
             (if mkdir_ok P (path_dirname P filePath)
              then (if write_ok P filePath then Inr True else Inl (SystemError ''writeFile''))
              else Inl (SystemError ''mkdir''))
             (\<lambda>error. Inl (FileWriteError filePath)) of
        Inl e \<Rightarrow> ([], Rejected e)
      | Inr ok \<Rightarrow> ([Json_file filePath data], Fulfilled ok))"

definition downloadAsset ::
    "platform \<Rightarrow> string \<Rightarrow> string \<Rightarrow> file_write list \<times> bool settled" where
  "downloadAsset P assetUrl filePath =
     (case getAssetStream P assetUrl of
        Inl e \<Rightarrow> ([], Rejected e)
      | Inr dataStream \<Rightarrow>
          (case try_catch
                  (if mkdir_ok P (path_dirname P filePath) then Inr ()
                   else Inl (SystemError ''mkdir''))
                  (\<lambda>error. Inl (FileWriteError filePath)) of
             Inl e \<Rightarrow> ([], Rejected e)
           | Inr _ \<Rightarrow>
               if write_ok P filePath then ([Asset_file filePath dataStream], Fulfilled True)
               else ([], Rejected (FileWriteError filePath))))"

text \<open>\<^verbatim>\<open>performance.now()\<close> never decreases, so \<^verbatim>\<open>end - start\<close> is not negative.\<close>

record duration =
  seconds :: nat
  minutes :: nat
  hours :: nat

definition getDuration :: "nat \<Rightarrow> nat \<Rightarrow> duration" where
  "getDuration start end =
     (let diff = end - start
      in \<lparr>seconds = (diff div 1000) mod 60,
          minutes = (diff div 60000) mod 60,
          hours = (diff div 3600000) mod 24\<rparr>)"

section \<open>scrapingUtils.js: asset download\<close>

record image_datum =
  asset_url :: string
  asset_identifier :: string

text \<open>\<^verbatim>\<open>array.map(callback)\<close> with a callback that may throw: the first
  exception ends the mapping.\<close>

fun map_throwing :: "('a \<Rightarrow> error + 'b) \<Rightarrow> 'a list \<Rightarrow> error + 'b list" where
  "map_throwing f [] = Inr []"
| "map_throwing f (x # xs) =
     and_then (f x) (\<lambda>y. and_then (map_throwing f xs) (\<lambda>ys. Inr (y # ys)))"

definition imageName :: "image_datum \<Rightarrow> error + string" where
  "imageName imageDatum =
     and_then (at0 (match_suffix re_alnum (asset_url imageDatum)))
       (\<lambda>imageExtension. Inr (asset_identifier imageDatum @ ''.'' @ imageExtension))"

definition imageFilePath :: "platform \<Rightarrow> string \<Rightarrow> image_datum \<Rightarrow> error + string" where
  "imageFilePath P dataDirectory imageDatum =
     and_then (imageName imageDatum) (\<lambda>name. Inr (path_resolve P dataDirectory name))"

text \<open>
  An exception in the mapping callback rejects \<^verbatim>\<open>downloadBookImages\<close> itself,
  before \<^verbatim>\<open>Promise.allSettled\<close> is reached; the downloads started for earlier
  entries are then awaited by nobody and their files are not accounted for.
\<close>

definition downloadBookImages ::
    "platform \<Rightarrow> (nat \<Rightarrow> nat) \<Rightarrow> image_datum list \<Rightarrow> string
      \<Rightarrow> (file_write list \<times> bool settled list settled) option" where
  "downloadBookImages P arrival imageData dataDirectory =
     (case map_throwing
             (\<lambda>imageDatum.
                and_then (imageFilePath P dataDirectory imageDatum)
                  (\<lambda>path. Inr (downloadAsset P (asset_url imageDatum) path)))
             imageData of
        Inl e \<Rightarrow> Some ([], Rejected e)
      | Inr operations \<Rightarrow>
          (case allSettled arrival operations of
             None \<Rightarrow> None
           | Some (writes, results) \<Rightarrow> Some (writes, Fulfilled results)))"

section \<open>index.js\<close>

definition duration_text :: "duration \<Rightarrow> string" where
  "duration_text d =
     decimal (hours d) @ '' hr(s) '' @ decimal (minutes d) @ '' min(s) and ''
       @ decimal (seconds d) @ '' sec(s)''"

definition executeBookScrapingJob ::
    "platform \<Rightarrow> (nat \<Rightarrow> nat) \<Rightarrow> (nat \<Rightarrow> nat) \<Rightarrow> string \<Rightarrow> string
      \<Rightarrow> (log \<times> file_write list \<times> book_info list settled) option" where
  "executeBookScrapingJob P arrival_pages arrival_items baseUrl outputFilePath =
     (let started = [(LInfo, ''Book data scraping job started'')];
          start = performance_now P 0
      in case constructCatalogPageUrls P baseUrl of
           (lg1, Rejected e) \<Rightarrow> Some (started @ lg1, [], Rejected e)
         | (lg1, Fulfilled None) \<Rightarrow>
             Some (started @ lg1, [],
                   Rejected (TypeError ''Cannot read properties of null (reading 'length')''))
         | (lg1, Fulfilled (Some catalogPageUrls)) \<Rightarrow>
             (case constructAllBookPageUrls P arrival_pages catalogPageUrls baseUrl of
                None \<Rightarrow> None
              | Some (lg2, bookPageUrls) \<Rightarrow>
                  (case extractAllBookInfo P arrival_items bookPageUrls of
                     None \<Rightarrow> None
                   | Some (lg3, bookData) \<Rightarrow>
                       (let (writes, lg4) =
                              (case writeToJsonFile P outputFilePath bookData of
                                 (w, Fulfilled _) \<Rightarrow>
                                   (w, [(LInfo, ''The book data has been persisted to ''
                                                  @ outputFilePath)])
                               | (w, Rejected error) \<Rightarrow> (w, [(LError, message error)]));
                            end = performance_now P 1;
                            duration = getDuration start end
                        in Some
                            (started @ lg1
                               @ [(LInfo, ''Number of catalog page URLs found: ''
                                            @ decimal (length catalogPageUrls))]
                               @ lg2
                               @ [(LInfo, ''Number of book details page URLs found: ''
                                            @ decimal (length bookPageUrls))]
                               @ lg3
                               @ [(LInfo, ''Number of books scraped: ''
                                            @ decimal (length bookData))]
                               @ lg4
                               @ [(LInfo, ''Book data scraping job completed in ''
                                            @ duration_text duration)],
                             writes, Fulfilled bookData)))))"

definition assetDescriptor :: "book_info \<Rightarrow> error + image_datum" where
  "assetDescriptor datum =
     (case find (\<lambda>item. key item = ''UPC'') (productInfo datum) of
        None \<Rightarrow> Inl (TypeError ''Cannot read properties of undefined (reading 'value')'')
      | Some item \<Rightarrow> Inr \<lparr>asset_url = imageUrl datum, asset_identifier = val item\<rparr>)"

fun rejections :: "bool settled list \<Rightarrow> nat \<times> log" where
  "rejections [] = (0, [])"
| "rejections (Fulfilled _ # results) = rejections results"
| "rejections (Rejected reason # results) =
     (let (rejectedPromises, lg) = rejections results
      in (Suc rejectedPromises, (LError, message reason) # lg))"

text \<open>
  \<^verbatim>\<open>bookData\<close> is \<^verbatim>\<open>None\<close> when the caller's variable was never assigned
  (\<^verbatim>\<open>undefined\<close>); \<^verbatim>\<open>tick\<close> is the number of clock readings taken before the
  call.
\<close>

definition downloadAssets ::
    "platform \<Rightarrow> (nat \<Rightarrow> nat) \<Rightarrow> nat \<Rightarrow> book_info list option \<Rightarrow> string
      \<Rightarrow> (log \<times> file_write list \<times> unit settled) option" where
  "downloadAssets P arrival tick bookData dataDirectory =
     (let started = [(LInfo, ''Book data asset download job started'')];
          start = performance_now P tick
      in case (case bookData of
                 None \<Rightarrow> Inl (TypeError ''Cannot read properties of undefined (reading 'map')'')
               | Some data \<Rightarrow> map_throwing assetDescriptor data) of
           Inl e \<Rightarrow> Some (started, [], Rejected e)
         | Inr imageData \<Rightarrow>
             (let scheduled = [(LInfo, ''Number of assets scheduled to be downloaded: ''
                                         @ decimal (length imageData))]
              in case downloadBookImages P arrival imageData dataDirectory of
                   None \<Rightarrow> None
                 | Some (writes, Rejected e) \<Rightarrow> Some (started @ scheduled, writes, Rejected e)
                 | Some (writes, Fulfilled results) \<Rightarrow>
                     (let (rejectedPromises, lg) = rejections results;
                          end = performance_now P (Suc tick);
                          duration = getDuration start end
                      in Some
                          (started @ scheduled @ lg
                             @ [(LInfo, ''Number of assets successfully downloaded: ''
                                          @ decimal (length imageData - rejectedPromises))]
                             @ [(LInfo, ''Book data asset download job completed in ''
                                          @ duration_text duration)],
                           writes, Fulfilled ()))))"

definition BASE_URL :: string where
  "BASE_URL = ''http://books.toscrape.com''"

text \<open>
  The module body.  \<^verbatim>\<open>env_DATA_DIR\<close> is the environment variable, if set.  The
  call of \<^verbatim>\<open>downloadAssets\<close> stands after the \<^verbatim>\<open>try\<close> statement, so it is reached
  on both of its exits; after the handler \<^verbatim>\<open>bookData\<close> is still unassigned.
\<close>

definition main ::
    "platform \<Rightarrow> (nat \<Rightarrow> nat) \<Rightarrow> (nat \<Rightarrow> nat) \<Rightarrow> (nat \<Rightarrow> nat) \<Rightarrow> string option
      \<Rightarrow> (log \<times> file_write list \<times> unit settled) option" where
  "main P arrival_pages arrival_items arrival_assets env_DATA_DIR =
     (let DATA_DIR = (case env_DATA_DIR of None \<Rightarrow> ''data'' | Some d \<Rightarrow> d)
      in case executeBookScrapingJob P arrival_pages arrival_items BASE_URL
                (DATA_DIR @ ''/book-data.json'') of
           None \<Rightarrow> None
         | Some (lg, writes, outcome) \<Rightarrow>
             (let (bookData, caught, tick) =
                    (case outcome of
                       Fulfilled data \<Rightarrow> (Some data, [], 2)
                     | Rejected error \<Rightarrow> (None, [(LError, message error)], 1))
              in case downloadAssets P arrival_assets tick bookData (DATA_DIR @ ''/assets'') of
                   None \<Rightarrow> None
                 | Some (lg', writes', outcome') \<Rightarrow>
                     Some (lg @ caught @ lg', writes @ writes', outcome')))"

section \<open>URLs of the sample platform\<close>

text \<open>
  The sample platform further down needs a URL constructor of its own.  No
  statement about the program assumes that a platform's constructor is this one:
  the program is modelled over any \<^verbatim>\<open>new_URL\<close>.

  \<^verbatim>\<open>plain_href\<close> is the \<^verbatim>\<open>href\<close> that the URL standard gives to
  \<^verbatim>\<open>new URL(relative, base)\<close> on a class of plain inputs, and \<^verbatim>\<open>None\<close> outside
  that class, where it says nothing about the constructor (which accepts far
  more).  The class:
  \<^item> the base is \<^verbatim>\<open>http://\<close> or \<^verbatim>\<open>https://\<close>, a host name, an optional port, a
    path of unreserved characters and slashes, and an optional query or fragment;
  \<^item> the host is a name of dot-separated, non-empty labels of letters, digits
    and hyphens, none with hyphens in its third and fourth place, the last of
    letters only, and is put in lower case; or it is an address of four decimal
    numbers up to 255, none with a leading zero;
  \<^item> the port is a decimal number up to 65535 and is left out of the result when
    it is the default of the scheme (80 or 443);
  \<^item> the reference is a non-empty path of unreserved characters and slashes that
    does not start with two slashes, optionally followed by a question mark and
    a query of unreserved characters, slashes, \<^verbatim>\<open>=\<close> and \<^verbatim>\<open>&\<close>.
  There nothing is percent-encoded.  A reference that starts with a slash replaces
  the path of the base; any other continues the path of the base without its
  last segment; \<^verbatim>\<open>.\<close> and \<^verbatim>\<open>..\<close> are resolved on the way.  Query and fragment of
  the base are dropped.
\<close>

definition is_unreserved :: "char \<Rightarrow> bool" where
  "is_unreserved c = (is_alnum c \<or> c = CHR ''-'' \<or> c = CHR ''.'' \<or> c = CHR ''_'' \<or> c = CHR ''~'')"

definition is_path_char :: "char \<Rightarrow> bool" where
  "is_path_char c = (is_unreserved c \<or> c = CHR ''/'')"

definition is_query_char :: "char \<Rightarrow> bool" where
  "is_query_char c = (is_path_char c \<or> c = CHR ''='' \<or> c = CHR ''&'')"

definition is_letter :: "char \<Rightarrow> bool" where
  "is_letter c = (is_upper c \<or> is_lower c)"

definition lower_case :: "char \<Rightarrow> char" where
  "lower_case c = (if is_upper c then char_of (of_char c + (32 :: nat)) else c)"

fun split_on :: "char \<Rightarrow> string \<Rightarrow> string list" where
  "split_on sep [] = [[]]"
| "split_on sep (c # cs) =
     (if c = sep then [] # split_on sep cs
      else (let r = split_on sep cs in (c # hd r) # tl r))"

definition plain_label :: "string \<Rightarrow> bool" where
  "plain_label l =
     (l \<noteq> [] \<and> list_all (\<lambda>c. is_alnum c \<or> c = CHR ''-'') l \<and> take 2 (drop 2 l) \<noteq> ''--'')"

text \<open>A part of a dotted-decimal address: a number up to 255 written without a
  leading zero.\<close>

definition plain_octet :: "string \<Rightarrow> bool" where
  "plain_octet l =
     (l \<noteq> [] \<and> list_all is_digit l \<and> (if hd l = CHR ''0'' then l = ''0'' else Number l \<le> 255))"

definition plain_host :: "string \<Rightarrow> bool" where
  "plain_host host =
     (let labels = split_on CHR ''.'' host
      in (list_all plain_label labels \<and> list_all is_letter (last labels))
         \<or> (length labels = 4 \<and> list_all plain_octet labels))"

text \<open>The port part of an authority (empty, or a colon and digits) as it appears
  in the result; \<^verbatim>\<open>None\<close> when it is not in the class.\<close>

definition plain_port :: "string \<Rightarrow> string \<Rightarrow> string option" where
  "plain_port scheme port_part =
     (case port_part of
        [] \<Rightarrow> Some []
      | c # ds \<Rightarrow>
          if \<not> list_all is_digit ds then None
          else if ds = [] then Some []
          else if 65535 < Number ds then None
          else if Number ds = (if scheme = ''http'' then 80 else 443) then Some []
          else Some (CHR '':'' # decimal (Number ds)))"

text \<open>The path state of the URL parser, one raw segment at a time.\<close>

fun path_state :: "string list \<Rightarrow> string list \<Rightarrow> string list" where
  "path_state path [] = path"
| "path_state path (segment # rest) =
     (if segment = ''..''
      then (if rest = [] then butlast path @ [[]] else path_state (butlast path) rest)
      else if segment = ''.''
      then (if rest = [] then path @ [[]] else path_state path rest)
      else path_state (path @ [segment]) rest)"

text \<open>The base: scheme and authority as they appear in the result, and the path
  as a list of segments.\<close>

definition parse_plain_base :: "string \<Rightarrow> (string \<times> string \<times> string list) option" where
  "parse_plain_base base =
     (let after = (if take 7 base = ''http://'' then Some (''http'', drop 7 base)
                   else if take 8 base = ''https://'' then Some (''https'', drop 8 base)
                   else None)
      in case after of
           None \<Rightarrow> None
         | Some (scheme, rest) \<Rightarrow>
             (let hierarchy = takeWhile (\<lambda>c. c \<noteq> CHR ''?'' \<and> c \<noteq> CHR ''#'') rest;
                  authority = takeWhile (\<lambda>c. c \<noteq> CHR ''/'') hierarchy;
                  pathname = dropWhile (\<lambda>c. c \<noteq> CHR ''/'') hierarchy;
                  host = takeWhile (\<lambda>c. c \<noteq> CHR '':'') authority;
                  port_part = dropWhile (\<lambda>c. c \<noteq> CHR '':'') authority
              in if plain_host host \<and> list_all is_path_char pathname
                 then (case plain_port scheme port_part of
                         None \<Rightarrow> None
                       | Some port \<Rightarrow>
                           Some (scheme, map lower_case host @ port,
                                 path_state [] (split_on CHR ''/'' (tl pathname))))
                 else None))"

text \<open>The reference: its path and its query part (empty, or a question mark and
  the query).\<close>

definition plain_reference :: "string \<Rightarrow> (string \<times> string) option" where
  "plain_reference r =
     (let path_part = takeWhile (\<lambda>c. c \<noteq> CHR ''?'') r;
          query_part = dropWhile (\<lambda>c. c \<noteq> CHR ''?'') r
      in if path_part \<noteq> [] \<and> take 2 path_part \<noteq> ''//''
            \<and> list_all is_path_char path_part \<and> list_all is_query_char (tl query_part)
         then Some (path_part, query_part) else None)"

definition plain_href :: "string \<Rightarrow> string \<Rightarrow> string option" where
  "plain_href relative base =
     (case parse_plain_base base of
        None \<Rightarrow> None
      | Some (scheme, authority, base_path) \<Rightarrow>
          (case plain_reference relative of
             None \<Rightarrow> None
           | Some (path_part, query_part) \<Rightarrow>
               Some (scheme @ ''://'' @ authority
                       @ concat (map (\<lambda>segment. CHR ''/'' # segment)
                                   (if hd path_part = CHR ''/''
                                    then path_state [] (split_on CHR ''/'' (tl path_part))
                                    else path_state (butlast base_path)
                                           (split_on CHR ''/'' path_part)))
                       @ query_part)))"

text \<open>The constructor of the sample platform: the standard's answer on the plain
  class; every other input it refuses.\<close>

definition sample_new_URL :: "string \<Rightarrow> string \<Rightarrow> error + string" where
  "sample_new_URL relative base =
     (case plain_href relative base of
        None \<Rightarrow> Inl (TypeError ''Invalid URL'')
      | Some href \<Rightarrow> Inr href)"

section \<open>Notions used in the statements\<close>

text \<open>The fetch of a page succeeds when an exchange completes with status 200.\<close>

definition page_loaded :: "platform \<Rightarrow> string \<Rightarrow> document option" where
  "page_loaded P u =
     (case http_page P u of
        No_Exchange \<Rightarrow> None
      | Response status body \<Rightarrow> if status = 200 then Some body else None)"

text \<open>The record of an item page whose fetch and whose extraction both succeed.\<close>

definition record_of :: "platform \<Rightarrow> string \<Rightarrow> book_info option" where
  "record_of P u =
     (case page_loaded P u of
        None \<Rightarrow> None
      | Some doc \<Rightarrow> (case parseBookInfo P doc u of Inl e \<Rightarrow> None | Inr info \<Rightarrow> Some info))"

text \<open>The log entry of a failed page fetch.\<close>

definition fetch_failure_entry :: "string \<Rightarrow> level \<times> string" where
  "fetch_failure_entry u = (LError, message (NoResponseError u))"

text \<open>The trailing alphanumeric run of a string.\<close>

definition trailing_alnum :: "string \<Rightarrow> string" where
  "trailing_alnum s = rev (takeWhile is_alnum (rev s))"

text \<open>The file path under which the asset of a descriptor is to be stored: the
  data directory, then identifier, dot and trailing alphanumeric run of the URL.\<close>

definition destination :: "platform \<Rightarrow> string \<Rightarrow> image_datum \<Rightarrow> string" where
  "destination P dataDirectory d =
     path_resolve P dataDirectory (asset_identifier d @ ''.'' @ trailing_alnum (asset_url d))"

section \<open>A sample site\<close>

definition document_of :: "(string \<times> element list) list \<Rightarrow> document" where
  "document_of table selector = (case map_of table selector of None \<Rightarrow> [] | Some els \<Rightarrow> els)"

definition text_element :: "string \<Rightarrow> element" where
  "text_element s = \<lparr>el_attrs = [], el_text = s\<rparr>"

definition attr_element :: "string \<Rightarrow> string \<Rightarrow> element" where
  "attr_element name v = \<lparr>el_attrs = [(name, v)], el_text = []\<rparr>"

definition empty_document :: document where
  "empty_document = document_of []"

definition home_document :: document where
  "home_document = document_of [(paginationSelector, [text_element '' Page 1 of 2 ''])]"

definition home_without_count :: document where
  "home_without_count = document_of [(paginationSelector, [text_element ''Page''])]"

definition catalog_document_1 :: document where
  "catalog_document_1 = document_of [(bookAnchorSelector, [attr_element ''href'' ''item-1/index.html''])]"

definition catalog_document_2 :: document where
  "catalog_document_2 =
     document_of [(bookAnchorSelector,
       [attr_element ''href'' ''item-2/index.html'', attr_element ''href'' ''item-3/index.html''])]"

definition product_table :: "(string \<times> element list) list" where
  "product_table =
     [(sel_productInfoKeys, [text_element ''UPC'', text_element ''Product Type'', text_element ''Tax'']),
      (sel_productInfoData, [text_element '' abc123 '', text_element ''Books''])]"

definition detail_document :: document where
  "detail_document =
     document_of
       ([(sel_breadcrumbs, [text_element ''Home'', text_element ''Books'',
                            text_element '' Poetry '', text_element ''A Light''])
        , (sel_title, [text_element ''A Light''])
        , (sel_rating, [attr_element ''class'' ''star-rating Three''])
        , (sel_description, [text_element ''Poems.''])
        , (sel_image, [attr_element ''src'' ''../../media/cache/fe/a-light.jpg''])]
        @ product_table)"

definition unrated_document :: document where
  "unrated_document =
     document_of
       ([(sel_breadcrumbs, [text_element ''Home'', text_element ''Books'',
                            text_element ''Poetry'', text_element ''Untitled''])
        , (sel_title, [text_element ''Untitled''])
        , (sel_description, [text_element ''Prose.''])
        , (sel_image, [attr_element ''src'' ''../../media/cache/fe/untitled.jpg''])]
        @ product_table)"

definition page_1 :: string where
  "page_1 = ''http://books.toscrape.com/catalogue/page-1.html''"

definition page_2 :: string where
  "page_2 = ''http://books.toscrape.com/catalogue/page-2.html''"

definition item_1 :: string where
  "item_1 = ''http://books.toscrape.com/catalogue/item-1/index.html''"

definition item_2 :: string where
  "item_2 = ''http://books.toscrape.com/catalogue/item-2/index.html''"

definition item_3 :: string where
  "item_3 = ''http://books.toscrape.com/catalogue/item-3/index.html''"

definition item_4 :: string where
  "item_4 = ''http://books.toscrape.com/catalogue/item-4/index.html''"

text \<open>The site: two catalog pages, item 2 unreachable, item 4 without a rating,
  and one address that answers 204.\<close>

definition sample_pages :: "(string \<times> document http_outcome) list" where
  "sample_pages =
     [(''http://books.toscrape.com'', Response 200 home_document),
      (''http://books.toscrape.com/'', Response 200 home_document),
      (''http://books.toscrape.com/empty'', Response 204 empty_document),
      (page_1, Response 200 catalog_document_1),
      (page_2, Response 200 catalog_document_2),
      (item_1, Response 200 detail_document),
      (item_3, Response 200 detail_document),
      (item_4, Response 200 unrated_document)]"

text \<open>A platform serving the given pages and any asset, with URLs of the plain
  class and a file system that accepts every write.\<close>

definition platform_serving :: "(string \<times> document http_outcome) list \<Rightarrow> platform" where
  "platform_serving pages =
     \<lparr>http_page = (\<lambda>u. case map_of pages u of None \<Rightarrow> No_Exchange | Some r \<Rightarrow> r),
      http_asset = (\<lambda>u. Response 200 ''image bytes''),
      new_URL = sample_new_URL,
      path_resolve = (\<lambda>directory name. directory @ ''/'' @ name),
      path_dirname = (\<lambda>p. rev (tl (dropWhile (\<lambda>c. c \<noteq> CHR ''/'') (rev p)))),
      mkdir_ok = (\<lambda>p. True),
      write_ok = (\<lambda>p. True),
      performance_now = (\<lambda>k. 1000 * k)\<rparr>"

definition sample_site :: platform where
  "sample_site = platform_serving sample_pages"

definition site_without_count :: platform where
  "site_without_count = platform_serving [(BASE_URL, Response 200 home_without_count)]"

text \<open>Two asset descriptors: the URL of the first ends in \<^verbatim>\<open>.jpg\<close>, the URL of
  the second in a slash.\<close>

definition jpg_asset :: image_datum where
  "jpg_asset = \<lparr>asset_url = ''http://books.toscrape.com/media/cache/fe/a-light.jpg'',
                 asset_identifier = ''abc123''\<rparr>"

definition directory_asset :: image_datum where
  "directory_asset = \<lparr>asset_url = ''http://books.toscrape.com/media/'',
                       asset_identifier = ''abc123''\<rparr>"

text \<open>Two orders of completion: as started, and the other way round.\<close>

definition first_started_first :: "nat \<Rightarrow> nat" where
  "first_started_first i = i"

definition last_started_first :: "nat \<Rightarrow> nat" where
  "last_started_first i = 100 - i"

section \<open>Basic facts\<close>

lemma try_catch_simps [simp]:
  "try_catch (Inl e) h = h e" "try_catch (Inr v) h = Inr v"
  by (simp_all add: try_catch_def)

lemma and_then_simps [simp]:
  "and_then (Inl e) f = Inl e" "and_then (Inr v) f = f v"
  by (simp_all add: and_then_def)

lemma getHtmlResponse_page_loaded:
  "getHtmlResponse P u =
     (case page_loaded P u of None \<Rightarrow> Inl (NoResponseError u) | Some body \<Rightarrow> Inr body)"
  by (simp add: getHtmlResponse_def axios_get_def page_loaded_def split: http_outcome.split)

lemma getHtmlResponse_200:
  "http_page P u = Response 200 body \<Longrightarrow> getHtmlResponse P u = Inr body"
  by (simp add: getHtmlResponse_page_loaded page_loaded_def)

section \<open>The fetcher\<close>

text \<open>
  Claim C2: a completed exchange whose status is not 200 should make
  \<^verbatim>\<open>getHtmlResponse\<close> fail with \<^verbatim>\<open>UnsuccessfulResponseError\<close>.  The function
  does throw that error, but inside its own \<^verbatim>\<open>try\<close> block, whose handler
  replaces every exception by \<^verbatim>\<open>NoResponseError\<close>.  So for every URL and every
  completed exchange with a status other than 200 the error that leaves the
  function is \<^verbatim>\<open>NoResponseError\<close>, and never \<^verbatim>\<open>UnsuccessfulResponseError\<close>.
  (With status 200 the body is returned: \<open>getHtmlResponse_200\<close>.)
\<close>

theorem getHtmlResponse_not_200:
  "http_page P u = Response status body \<Longrightarrow> status \<noteq> 200 \<Longrightarrow>
     getHtmlResponse P u = Inl (NoResponseError u)
     \<and> getHtmlResponse P u \<noteq> Inl (UnsuccessfulResponseError u)"
  by (simp add: getHtmlResponse_def axios_get_def)

theorem getHtmlResponse_not_200_witness:
  "http_page sample_site ''http://books.toscrape.com/empty'' = Response 204 empty_document
   \<and> (204 :: nat) \<noteq> 200
   \<and> getHtmlResponse sample_site ''http://books.toscrape.com/empty''
       = Inl (NoResponseError ''http://books.toscrape.com/empty'')
   \<and> getHtmlResponse sample_site ''http://books.toscrape.com/empty''
       \<noteq> Inl (UnsuccessfulResponseError ''http://books.toscrape.com/empty'')"
proof -
  have h: "http_page sample_site ''http://books.toscrape.com/empty'' = Response 204 empty_document"
    by (simp add: sample_site_def platform_serving_def sample_pages_def)
  have n: "(204 :: nat) \<noteq> 200" by simp
  show ?thesis
    using h n getHtmlResponse_not_200 [OF h n] by simp
qed

section \<open>The extractors\<close>

text \<open>
  Claim C3: with the class attribute \<^verbatim>\<open>star-rating Three\<close> the rating is
  \<^verbatim>\<open>Three\<close>, and a missing element, attribute or capitalised word should give
  \<^verbatim>\<open>BookRatingNotFoundError\<close>.  The handler of \<^verbatim>\<open>extractBookRating\<close> builds that
  error from \<^verbatim>\<open>bookPageUrl\<close>, a name that is not in scope, so evaluating the
  argument raises \<^verbatim>\<open>ReferenceError\<close> first.  For every document the outcome is
  the matched word when the class attribute of the first rating element ends in a
  capitalised word, and \<^verbatim>\<open>ReferenceError\<close> in each of the three other cases.
\<close>

theorem extractBookRating_outcome:
  "extractBookRating doc =
     (case attr ''class'' (eq_at 0 (doc sel_rating)) of
        None \<Rightarrow> Inl (ReferenceError ''bookPageUrl'')
      | Some c \<Rightarrow>
          (case match_suffix re_capitalised (trim c) of
             None \<Rightarrow> Inl (ReferenceError ''bookPageUrl'')
           | Some word \<Rightarrow> Inr word))"
  by (simp add: extractBookRating_def trim_of_def at0_def read_identifier_def
      split: option.split)

lemma rating_samples:
  "attr ''class'' (eq_at 0 (empty_document sel_rating)) = None"
  "attr ''class'' (eq_at 0 (detail_document sel_rating)) = Some ''star-rating Three''"
  "match_suffix re_capitalised (trim ''star-rating Three'') = Some ''Three''"
  by code_simp+

theorem extractBookRating_outcome_witness:
  "extractBookRating empty_document = Inl (ReferenceError ''bookPageUrl'')
   \<and> extractBookRating detail_document = Inr ''Three''"
  using extractBookRating_outcome [of empty_document]
    extractBookRating_outcome [of detail_document]
  by (simp add: rating_samples)

text \<open>
  Claim C4: without breadcrumbs \<^verbatim>\<open>extractBookCategory\<close> should fail with
  \<^verbatim>\<open>BookCategoryNotFoundError\<close>.  Its guard tests the selection object returned
  by \<^verbatim>\<open>.eq(-2)\<close>, and an object is truthy even when the selection is empty, so the
  guard never fires.  For every document and URL the function returns the trimmed
  text of the selection at index -2, which is the empty string when there are
  fewer than two breadcrumbs.
\<close>

theorem extractBookCategory_returns:
  "extractBookCategory doc u = Inr (trim (text_of (eq_at (- 2) (doc sel_breadcrumbs))))"
  by (simp add: extractBookCategory_def Let_def)

lemma category_samples:
  "trim (text_of (eq_at (- 2) (empty_document sel_breadcrumbs))) = []"
  "trim (text_of (eq_at (- 2) (detail_document sel_breadcrumbs))) = ''Poetry''"
  by code_simp+

theorem extractBookCategory_returns_witness:
  "extractBookCategory empty_document item_1 = Inr []
   \<and> extractBookCategory detail_document item_1 = Inr ''Poetry''"
  using extractBookCategory_returns [of empty_document item_1]
    extractBookCategory_returns [of detail_document item_1]
  by (simp add: category_samples)

lemma extractBookCategory_second_to_last:
  "2 \<le> length (doc sel_breadcrumbs) \<Longrightarrow>
   extractBookCategory doc u
     = Inr (trim (el_text (doc sel_breadcrumbs ! (length (doc sel_breadcrumbs) - 2))))"
  by (simp add: extractBookCategory_def Let_def eq_at_def text_of_def nat_diff_distrib')

lemma combine_eq:
  "index \<le> items \<Longrightarrow>
   combine ks ds items index acc = acc @ map (\<lambda>i. \<lparr>key = ks ! i, val = ds ! i\<rparr>) [index..<items]"
proof (induction ks ds items index acc rule: combine.induct)
  case (1 ks ds items index acc)
  show ?case
  proof (cases "index < items")
    case True
    then have "combine ks ds items index acc =
        combine ks ds items (Suc index) (acc @ [\<lparr>key = ks ! index, val = ds ! index\<rparr>])"
      by (subst combine.simps) simp
    also have "\<dots> = (acc @ [\<lparr>key = ks ! index, val = ds ! index\<rparr>])
        @ map (\<lambda>i. \<lparr>key = ks ! i, val = ds ! i\<rparr>) [Suc index..<items]"
      using True by (intro "1.IH") simp_all
    finally show ?thesis using True by (simp add: upt_conv_Cons)
  next
    case False
    with "1.prems" have "index = items" by simp
    then show ?thesis by (subst combine.simps) simp
  qed
qed

lemma map_upt_zip:
  "map (\<lambda>i. \<lparr>key = ks ! i, val = ds ! i\<rparr>) [0..<min (length ks) (length ds)]
     = map (\<lambda>(k, v). \<lparr>key = k, val = v\<rparr>) (zip ks ds)"
  by (rule nth_equalityI) simp_all

lemma extractBookProductInfo_eq:
  "extractBookProductInfo doc =
     Inr (map (\<lambda>(k, v). \<lparr>key = k, val = v\<rparr>)
            (zip (map (\<lambda>e. trim (el_text e)) (doc sel_productInfoKeys))
                 (map (\<lambda>e. trim (el_text e)) (doc sel_productInfoData))))"
proof -
  let ?ks = "map (\<lambda>e. trim (el_text e)) (doc sel_productInfoKeys)"
  let ?ds = "map (\<lambda>e. trim (el_text e)) (doc sel_productInfoData)"
  have "combine ?ks ?ds (min (length ?ks) (length ?ds)) 0 [] =
      map (\<lambda>(k, v). \<lparr>key = k, val = v\<rparr>) (zip ?ks ?ds)"
    using combine_eq [of 0 "min (length ?ks) (length ?ds)" ?ks ?ds "[]"] map_upt_zip [of ?ks ?ds]
    by simp
  then show ?thesis
    by (auto simp: extractBookProductInfo_def Let_def text_of_def min_def split: if_splits)
qed

text \<open>
  Claim C8: for a document with k key cells and v value cells,
  \<^verbatim>\<open>extractBookProductInfo\<close> returns exactly min(k, v) pairs, the i-th pair made
  of the trimmed text of the i-th key cell and of the i-th value cell; the cells
  beyond the shorter list are discarded, and the function does not fail.  With 3
  key cells and 2 value cells it returns 2 pairs and the third key is dropped.
\<close>

theorem extractBookProductInfo_pairs:
  "\<exists>pairs. extractBookProductInfo doc = Inr pairs
     \<and> length pairs = min (length (doc sel_productInfoKeys)) (length (doc sel_productInfoData))
     \<and> (\<forall>i < length pairs.
           pairs ! i = \<lparr>key = trim (el_text (doc sel_productInfoKeys ! i)),
                        val = trim (el_text (doc sel_productInfoData ! i))\<rparr>)"
  by (simp add: extractBookProductInfo_eq)

lemma product_samples:
  "detail_document sel_productInfoKeys
     = [text_element ''UPC'', text_element ''Product Type'', text_element ''Tax'']"
  "detail_document sel_productInfoData = [text_element '' abc123 '', text_element ''Books'']"
  "trim (el_text (text_element ''UPC'')) = ''UPC''"
  "trim (el_text (text_element ''Product Type'')) = ''Product Type''"
  "trim (el_text (text_element '' abc123 '')) = ''abc123''"
  "trim (el_text (text_element ''Books'')) = ''Books''"
  by code_simp+

theorem extractBookProductInfo_pairs_witness:
  "length (detail_document sel_productInfoKeys) = 3
   \<and> length (detail_document sel_productInfoData) = 2
   \<and> extractBookProductInfo detail_document
       = Inr [\<lparr>key = ''UPC'', val = ''abc123''\<rparr>, \<lparr>key = ''Product Type'', val = ''Books''\<rparr>]"
proof -
  obtain pairs where p: "extractBookProductInfo detail_document = Inr pairs"
    and l: "length pairs = 2"
    and n: "\<forall>i < length pairs.
           pairs ! i = \<lparr>key = trim (el_text (detail_document sel_productInfoKeys ! i)),
                        val = trim (el_text (detail_document sel_productInfoData ! i))\<rparr>"
    using extractBookProductInfo_pairs [of detail_document] by (auto simp: product_samples)
  from l n have "pairs ! 0 = \<lparr>key = ''UPC'', val = ''abc123''\<rparr>"
    "pairs ! 1 = \<lparr>key = ''Product Type'', val = ''Books''\<rparr>"
    by (simp_all add: product_samples)
  with l have "pairs = [\<lparr>key = ''UPC'', val = ''abc123''\<rparr>, \<lparr>key = ''Product Type'', val = ''Books''\<rparr>]"
    by (cases pairs; cases "tl pairs"; cases "tl (tl pairs)") auto
  with p show ?thesis by (simp add: product_samples)
qed

section \<open>The wait-for-all fan-out\<close>

lemma fill_slots:
  "set order \<subseteq> {..<length vs} \<Longrightarrow>
   foldl (\<lambda>values i. values[i := Some (g i)]) vs order
     = map (\<lambda>j. if j \<in> set order then Some (g j) else vs ! j) [0..<length vs]"
proof (induction order arbitrary: vs)
  case Nil
  then show ?case by (simp add: map_nth)
next
  case (Cons i order)
  have "foldl (\<lambda>values i. values[i := Some (g i)]) (vs[i := Some (g i)]) order
      = map (\<lambda>j. if j \<in> set order then Some (g j) else vs[i := Some (g i)] ! j)
          [0..<length (vs[i := Some (g i)])]"
    using Cons.prems by (intro Cons.IH) simp
  then show ?case
    using Cons.prems by (auto simp: nth_list_update)
qed

lemma those_map_Some: "those (map Some xs) = Some xs"
  by (induction xs) simp_all

lemma set_completion_order: "set (completion_order arrival n) = {..<n}"
  by (auto simp: completion_order_def)

lemma allSettled_eq:
  "allSettled arrival operations =
     Some (concat (map (\<lambda>i. fst (operations ! i)) (completion_order arrival (length operations))),
           map snd operations)"
proof -
  let ?n = "length operations"
  let ?order = "completion_order arrival ?n"
  have s: "set ?order = {..<?n}"
    by (rule set_completion_order)
  have "foldl (\<lambda>values i. values[i := Some (snd (operations ! i))]) (replicate ?n None) ?order
      = map (\<lambda>j. if j \<in> set ?order then Some (snd (operations ! j)) else replicate ?n None ! j)
          [0..<length (replicate ?n (None :: 'b settled option))]"
    using s by (intro fill_slots) simp
  also have "\<dots> = map (\<lambda>j. Some (snd (operations ! j))) [0..<?n]"
    using s by simp
  also have "\<dots> = map Some (map snd operations)"
    by (rule nth_equalityI) simp_all
  finally have slots:
    "foldl (\<lambda>values i. values[i := Some (snd (operations ! i))]) (replicate ?n None) ?order
      = map Some (map snd operations)" .
  show ?thesis
    unfolding allSettled_def Let_def slots those_map_Some by simp
qed

lemma allSettled_map:
  "allSettled arrival (map f xs) =
     Some (concat (map (\<lambda>i. fst (f (xs ! i))) (completion_order arrival (length xs))),
           map (\<lambda>x. snd (f x)) xs)"
proof -
  have eq: "map (\<lambda>i. fst (map f xs ! i)) (completion_order arrival (length xs))
      = map (\<lambda>i. fst (f (xs ! i))) (completion_order arrival (length xs))"
    by (rule map_cong) (simp_all add: set_completion_order)
  show ?thesis
    by (simp add: allSettled_eq comp_def eq)
qed

section \<open>Records\<close>

lemma extractBookInfo_cases:
  "extractBookInfo P u =
     (case page_loaded P u of
        None \<Rightarrow> ([fetch_failure_entry u], Fulfilled None)
      | Some doc \<Rightarrow>
          ([], case parseBookInfo P doc u of
                 Inl e \<Rightarrow> Rejected e
               | Inr info \<Rightarrow> Fulfilled (Some info)))"
  by (simp add: extractBookInfo_def getHtmlResponse_page_loaded fetch_failure_entry_def
      settle_def split: option.split sum.split)

lemma extractBookInfo_log:
  "fst (extractBookInfo P u) = (if page_loaded P u = None then [fetch_failure_entry u] else [])"
  by (simp add: extractBookInfo_cases split: option.split)

lemma push_value_record:
  "push_value acc (snd (extractBookInfo P u)) =
     (case record_of P u of None \<Rightarrow> acc | Some info \<Rightarrow> acc @ [info])"
  by (simp add: push_value_def extractBookInfo_cases record_of_def
      split: option.split sum.split)

lemma foldl_push_value:
  "foldl push_value acc (map (\<lambda>u. snd (extractBookInfo P u)) us)
     = acc @ List.map_filter (record_of P) us"
proof (induction us arbitrary: acc)
  case Nil
  then show ?case by (simp add: List.map_filter_simps)
next
  case (Cons u us)
  then show ?case
    by (simp add: push_value_record List.map_filter_simps split: option.split)
qed

lemma extractAllBookInfo_eq:
  "extractAllBookInfo P arrival (map Some us) =
     Some (concat (map (\<lambda>i. if page_loaded P (us ! i) = None
                            then [fetch_failure_entry (us ! i)] else [])
                     (completion_order arrival (length us))),
           List.map_filter (record_of P) us)"
proof -
  have entry: "extractBookInfo_entry P (Some u) = extractBookInfo P u" for u
    by (simp add: extractBookInfo_entry_def)
  show ?thesis
    by (simp add: extractAllBookInfo_def allSettled_map comp_def entry foldl_push_value
        extractBookInfo_log)
qed

lemma sample_page_loaded:
  "page_loaded sample_site item_1 = Some detail_document"
  "page_loaded sample_site item_2 = None"
  "page_loaded sample_site item_3 = Some detail_document"
  "page_loaded sample_site item_4 = Some unrated_document"
  by (simp_all add: page_loaded_def sample_site_def platform_serving_def sample_pages_def
      item_1_def item_2_def item_3_def item_4_def page_1_def page_2_def)

lemma sample_parse:
  "parseBookInfo sample_site detail_document item_1 =
     Inr \<lparr>url = item_1, category = ''Poetry'', title = ''A Light'', rating = ''Three'',
          description = ''Poems.'',
          productInfo = [\<lparr>key = ''UPC'', val = ''abc123''\<rparr>,
                         \<lparr>key = ''Product Type'', val = ''Books''\<rparr>],
          imageUrl = ''http://books.toscrape.com/media/cache/fe/a-light.jpg''\<rparr>"
  "parseBookInfo sample_site detail_document item_3 =
     Inr \<lparr>url = item_3, category = ''Poetry'', title = ''A Light'', rating = ''Three'',
          description = ''Poems.'',
          productInfo = [\<lparr>key = ''UPC'', val = ''abc123''\<rparr>,
                         \<lparr>key = ''Product Type'', val = ''Books''\<rparr>],
          imageUrl = ''http://books.toscrape.com/media/cache/fe/a-light.jpg''\<rparr>"
  "parseBookInfo sample_site unrated_document item_4 = Inl (ReferenceError ''bookPageUrl'')"
  by code_simp+

lemma sample_records:
  "record_of sample_site item_1 \<noteq> None"
  "record_of sample_site item_2 = None"
  "record_of sample_site item_3 \<noteq> None"
  "record_of sample_site item_4 = None"
  by (simp_all add: record_of_def sample_page_loaded sample_parse)

lemma length_map_filter:
  "length (List.map_filter f xs) = length (filter (\<lambda>x. f x \<noteq> None) xs)"
  by (simp add: List.map_filter_def)

text \<open>
  Claim C5: for every list of item-page URLs and every order of completion,
  \<^verbatim>\<open>extractAllBookInfo\<close> resolves with exactly one record for each URL whose
  fetch and extraction succeed, in the order of the URLs, and none for the
  others; every failed fetch has its error entry in the log, its operation
  resolves with \<^verbatim>\<open>null\<close>, and nothing is thrown to the caller.  With three URLs of which the second cannot be fetched and the
  others are complete pages, the result holds two records.
\<close>

theorem extractAllBookInfo_fetch_failures:
  "\<exists>lg records.
     extractAllBookInfo P arrival (map Some us) = Some (lg, records)
     \<and> records = List.map_filter (record_of P) us
     \<and> length records = length (filter (\<lambda>u. record_of P u \<noteq> None) us)
     \<and> (\<forall>u \<in> set us. page_loaded P u = None \<longrightarrow>
           fetch_failure_entry u \<in> set lg
           \<and> extractBookInfo P u = ([fetch_failure_entry u], Fulfilled None))
     \<and> (\<forall>a b c. us = [a, b, c] \<and> record_of P a \<noteq> None \<and> page_loaded P b = None
            \<and> record_of P c \<noteq> None \<longrightarrow> length records = 2)"
proof -
  have none: "record_of P b = None" if "page_loaded P b = None" for b
    using that by (simp add: record_of_def)
  have "fetch_failure_entry u \<in> set (concat (map (\<lambda>i. if page_loaded P (us ! i) = None
                            then [fetch_failure_entry (us ! i)] else [])
                     (completion_order arrival (length us))))"
    if "u \<in> set us" "page_loaded P u = None" for u
  proof -
    from that(1) obtain i where "i < length us" "us ! i = u"
      by (auto simp: in_set_conv_nth)
    with that(2) show ?thesis
      by (auto simp: set_completion_order intro!: bexI [of _ i])
  qed
  then show ?thesis
    by (auto simp: extractAllBookInfo_eq length_map_filter none extractBookInfo_cases)
qed

theorem extractAllBookInfo_fetch_failures_witness:
  "page_loaded sample_site item_2 = None
   \<and> (\<exists>lg records.
        extractAllBookInfo sample_site last_started_first (map Some [item_1, item_2, item_3])
          = Some (lg, records)
        \<and> length records = 2
        \<and> fetch_failure_entry item_2 \<in> set lg)"
  using extractAllBookInfo_fetch_failures
          [of sample_site last_started_first "[item_1, item_2, item_3]"]
  by (auto simp: sample_records sample_page_loaded)

text \<open>
  Claim C10: \<^verbatim>\<open>extractAllBookInfo\<close> always resolves.  An item whose page loads
  but whose record assembly throws is a rejected operation with no log entry; it
  contributes no record, the log consists of the entries of the failed fetches
  alone, and the records of the other items are what each of them yields on its
  own.
\<close>

theorem extractAllBookInfo_absorbs_throws:
  "\<exists>lg records.
     extractAllBookInfo P arrival (map Some us) = Some (lg, records)
     \<and> records = List.map_filter (record_of P) us
     \<and> lg = concat (map (\<lambda>i. if page_loaded P (us ! i) = None
                              then [fetch_failure_entry (us ! i)] else [])
                       (completion_order arrival (length us)))
     \<and> (\<forall>u \<in> set us. \<forall>doc e.
           page_loaded P u = Some doc \<and> parseBookInfo P doc u = Inl e \<longrightarrow>
             extractBookInfo P u = ([], Rejected e) \<and> record_of P u = None)"
  by (simp add: extractAllBookInfo_eq extractBookInfo_cases record_of_def)

theorem extractAllBookInfo_absorbs_throws_witness:
  "page_loaded sample_site item_4 = Some unrated_document
   \<and> parseBookInfo sample_site unrated_document item_4 = Inl (ReferenceError ''bookPageUrl'')
   \<and> extractBookInfo sample_site item_4 = ([], Rejected (ReferenceError ''bookPageUrl''))
   \<and> (\<exists>records.
        extractAllBookInfo sample_site last_started_first (map Some [item_1, item_4, item_3])
          = Some ([], records)
        \<and> records = List.map_filter (record_of sample_site) [item_1, item_3])"
proof -
  have order: "completion_order last_started_first (length [item_1, item_4, item_3]) = [2, 1, 0]"
    by code_simp
  show ?thesis
    using extractAllBookInfo_absorbs_throws
            [of sample_site last_started_first "[item_1, item_4, item_3]"]
    unfolding order
    by (auto simp: sample_records sample_page_loaded sample_parse List.map_filter_simps
        split: option.splits)
qed

section \<open>Catalog pages\<close>

lemma catalogPageUrls_loop_eq:
  "pageNum \<le> Suc n \<Longrightarrow>
   \<forall>i. pageNum \<le> i \<and> i \<le> n \<longrightarrow>
         new_URL P (page_template i) baseUrl = Inr (h i) \<Longrightarrow>
   catalogPageUrls_loop P baseUrl pageNum n acc = Inr (acc @ map h [pageNum..<Suc n])"
proof (induction P baseUrl pageNum n acc rule: catalogPageUrls_loop.induct)
  case (1 P baseUrl pageNum n acc)
  show ?case
  proof (cases "pageNum \<le> n")
    case True
    with "1.prems" have here:
      "new_URL P (page_template pageNum) baseUrl = Inr (h pageNum)"
      by simp
    have "catalogPageUrls_loop P baseUrl (Suc pageNum) n (acc @ [h pageNum])
        = Inr ((acc @ [h pageNum]) @ map h [Suc pageNum..<Suc n])"
      using True here "1.prems" by (intro "1.IH") simp_all
    moreover have "[pageNum..<Suc n] = pageNum # [Suc pageNum..<Suc n]"
      using True by (simp add: upt_conv_Cons)
    ultimately show ?thesis
      using True here by (subst catalogPageUrls_loop.simps) simp
  next
    case False
    with "1.prems" have "pageNum = Suc n" by simp
    then show ?thesis
      by (subst catalogPageUrls_loop.simps) simp
  qed
qed

lemma constructCatalogPageUrls_resolved:
  assumes "page_loaded P baseUrl = Some doc"
    and "match_suffix re_digits (trim (text_of (doc paginationSelector))) = Some ds"
    and "\<forall>i. 1 \<le> i \<and> i \<le> Number ds \<longrightarrow>
           new_URL P (page_template i) baseUrl = Inr (h i)"
  shows "constructCatalogPageUrls P baseUrl
           = ([], Fulfilled (Some (map h [1..<Suc (Number ds)])))"
proof -
  have "catalogPageUrls_loop P baseUrl 1 (Number ds) [] = Inr ([] @ map h [1..<Suc (Number ds)])"
    using assms(3) by (intro catalogPageUrls_loop_eq) simp_all
  then show ?thesis
    using assms(1,2)
    by (simp add: constructCatalogPageUrls_def getHtmlResponse_page_loaded at0_def settle_def)
qed

text \<open>
  Claim C6, amended: for every base URL and every page count N with
  1 \<le> N < 2^32 read from the trailing digits of the pagination indicator of the
  loaded home page, if the URL constructor resolves the reference
  \<^verbatim>\<open>catalogue/page-i.html\<close> against the base URL to \<^verbatim>\<open>href i\<close> for each i from 1
  to N, then \<^verbatim>\<open>constructCatalogPageUrls\<close> resolves with exactly N URLs, for the
  pages 1 to N in this order, the i-th being \<^verbatim>\<open>href i\<close>: the reference resolved
  against the base, not appended to it.  The i-th URL is the base URL followed by
  \<^verbatim>\<open>/catalogue/page-\<close>, i in decimal and \<^verbatim>\<open>.html\<close> whenever that is what the
  constructor resolves the reference to, as it does for the program's own base
  URL.
\<close>

theorem constructCatalogPageUrls_pages:
  assumes "page_loaded P baseUrl = Some doc"
    and "match_suffix re_digits (trim (text_of (doc paginationSelector))) = Some ds"
    and "1 \<le> Number ds" and "Number ds < 2 ^ 32"
    and "\<forall>i. 1 \<le> i \<and> i \<le> Number ds \<longrightarrow>
           new_URL P (page_template i) baseUrl = Inr (href i)"
  shows "constructCatalogPageUrls P baseUrl
           = ([], Fulfilled (Some (map href [1..<Suc (Number ds)])))
       \<and> length (map href [1..<Suc (Number ds)]) = Number ds
       \<and> (\<forall>i. 1 \<le> i \<and> i \<le> Number ds \<longrightarrow> map href [1..<Suc (Number ds)] ! (i - 1) = href i)
       \<and> ((\<forall>i. 1 \<le> i \<and> i \<le> Number ds \<longrightarrow>
               href i = baseUrl @ ''/catalogue/page-'' @ decimal i @ ''.html'') \<longrightarrow>
            constructCatalogPageUrls P baseUrl
              = ([], Fulfilled (Some (map (\<lambda>i. baseUrl @ ''/catalogue/page-'' @ decimal i @ ''.html'')
                                        [1..<Suc (Number ds)]))))"
proof -
  have result: "constructCatalogPageUrls P baseUrl
      = ([], Fulfilled (Some (map href [1..<Suc (Number ds)])))"
    using assms(1,2,5) by (rule constructCatalogPageUrls_resolved)
  have nth: "map href [1..<Suc (Number ds)] ! (i - 1) = href i"
    if "1 \<le> i \<and> i \<le> Number ds" for i
  proof -
    from that have "i - 1 < length [1..<Suc (Number ds)]" by (cases i) auto
    then have "map href [1..<Suc (Number ds)] ! (i - 1) = href ([1..<Suc (Number ds)] ! (i - 1))"
      by (rule nth_map)
    also have "[1..<Suc (Number ds)] ! (i - 1) = 1 + (i - 1)"
      using that by (intro nth_upt) (cases i; auto)
    also have "1 + (i - 1) = i"
      using that by (cases i) auto
    finally show ?thesis .
  qed
  have template: "map href [1..<Suc (Number ds)]
      = map (\<lambda>i. baseUrl @ ''/catalogue/page-'' @ decimal i @ ''.html'') [1..<Suc (Number ds)]"
    if "\<forall>i. 1 \<le> i \<and> i \<le> Number ds \<longrightarrow>
          href i = baseUrl @ ''/catalogue/page-'' @ decimal i @ ''.html''"
    using that by (intro map_cong) auto
  show ?thesis
    using result nth template by auto
qed

lemma sample_home:
  "match_suffix re_digits (trim (text_of (home_document paginationSelector))) = Some ''2''"
  "Number ''2'' = 2"
  "BASE_URL @ ''/catalogue/page-'' @ decimal 1 @ ''.html'' = page_1"
  "BASE_URL @ ''/catalogue/page-'' @ decimal 2 @ ''.html'' = page_2"
  "sample_new_URL (page_template 1) BASE_URL = Inr page_1"
  "sample_new_URL (page_template 2) BASE_URL = Inr page_2"
  by code_simp+

lemma sample_home_loaded:
  "page_loaded sample_site BASE_URL = Some home_document"
  "page_loaded sample_site ''http://books.toscrape.com/'' = Some home_document"
  "new_URL sample_site = sample_new_URL"
  by (simp_all add: page_loaded_def sample_site_def platform_serving_def sample_pages_def
      BASE_URL_def)

theorem constructCatalogPageUrls_pages_witness:
  "page_loaded sample_site BASE_URL = Some home_document
   \<and> match_suffix re_digits (trim (text_of (home_document paginationSelector))) = Some ''2''
   \<and> 1 \<le> Number ''2'' \<and> Number ''2'' < 2 ^ 32
   \<and> new_URL sample_site (page_template 1) BASE_URL = Inr page_1
   \<and> new_URL sample_site (page_template 2) BASE_URL = Inr page_2
   \<and> page_1 = BASE_URL @ ''/catalogue/page-'' @ decimal 1 @ ''.html''
   \<and> page_2 = BASE_URL @ ''/catalogue/page-'' @ decimal 2 @ ''.html''
   \<and> constructCatalogPageUrls sample_site BASE_URL = ([], Fulfilled (Some [page_1, page_2]))"
proof -
  have n: "1 \<le> Number ''2''" "Number ''2'' < 2 ^ 32"
    by (simp_all add: sample_home)
  have resolved: "\<forall>i. 1 \<le> i \<and> i \<le> Number ''2'' \<longrightarrow>
      new_URL sample_site (page_template i) BASE_URL
        = Inr (if i = 1 then page_1 else page_2)"
  proof (intro allI impI)
    fix i :: nat
    assume "1 \<le> i \<and> i \<le> Number ''2''"
    then have "i = 1 \<or> i = 2"
      by (auto simp: sample_home)
    then show "new_URL sample_site (page_template i) BASE_URL
        = Inr (if i = 1 then page_1 else page_2)"
      using sample_home(5,6) by (auto simp: sample_home_loaded)
  qed
  have upt: "[1..<Suc (Number ''2'')] = [1, 2]"
    by (simp add: sample_home upt_conv_Cons)
  have r: "constructCatalogPageUrls sample_site BASE_URL = ([], Fulfilled (Some [page_1, page_2]))"
    using constructCatalogPageUrls_pages [OF sample_home_loaded(1) sample_home(1) n resolved]
    unfolding upt by simp
  have u: "new_URL sample_site (page_template 1) BASE_URL = Inr page_1"
    "new_URL sample_site (page_template 2) BASE_URL = Inr page_2"
    unfolding sample_home_loaded(3) by (rule sample_home(5), rule sample_home(6))
  show ?thesis
    using sample_home_loaded(1) sample_home(1) n u sample_home(3) [symmetric]
      sample_home(4) [symmetric] r
    by (intro conjI) assumption+
qed

text \<open>
  The claim as first stated covers every base URL and gives the template for
  each.  Resolution against a base with a path does not append to the base: for
  the home page addressed with a trailing slash the first URL has one slash where
  the template has two.
\<close>

theorem constructCatalogPageUrls_trailing_slash:
  "match_suffix re_digits (trim (text_of (home_document paginationSelector))) = Some ''2''
   \<and> constructCatalogPageUrls sample_site ''http://books.toscrape.com/''
       = ([], Fulfilled (Some [''http://books.toscrape.com/catalogue/page-1.html'',
                               ''http://books.toscrape.com/catalogue/page-2.html'']))
   \<and> ''http://books.toscrape.com/'' @ ''/catalogue/page-'' @ decimal 1 @ ''.html''
       = ''http://books.toscrape.com//catalogue/page-1.html''
   \<and> ''http://books.toscrape.com/catalogue/page-1.html''
       \<noteq> ''http://books.toscrape.com/'' @ ''/catalogue/page-'' @ decimal 1 @ ''.html''"
  by code_simp

section \<open>Item discovery\<close>

lemma foldl_concat_value:
  "\<forall>p \<in> set pages. result p = Fulfilled (yields p) \<Longrightarrow>
   foldl concat_value acc (map result pages) = acc @ map Some (concat (map yields pages))"
  by (induction pages arbitrary: acc) simp_all

lemma constructAllBookPageUrls_eq:
  "constructAllBookPageUrls P arrival pages baseUrl =
     Some (concat (map (\<lambda>i. fst (constructBookPageUrlsInCatalogPage P (pages ! i) baseUrl))
                     (completion_order arrival (length pages))),
           foldl concat_value []
             (map (\<lambda>p. snd (constructBookPageUrlsInCatalogPage P p baseUrl)) pages))"
  by (simp add: constructAllBookPageUrls_def allSettled_map)

text \<open>A page operation is rejected only by the URL constructor; when the
  constructor resolves every reference that starts with \<^verbatim>\<open>catalogue/\<close> against
  the base URL, the operation yields a list.\<close>

lemma reduce_anchors_total:
  "\<forall>r. \<exists>h. new_URL P (''catalogue/'' @ r) baseUrl = Inr h \<Longrightarrow>
   \<exists>result. reduce_anchors P baseUrl elements acc = Inr result"
proof (induction elements arbitrary: acc)
  case Nil
  then show ?case by simp
next
  case (Cons element rest)
  obtain urls errors where acc: "acc = (urls, errors)"
    by (cases acc)
  show ?case
  proof (cases "attr ''href'' [element]")
    case None
    with Cons acc show ?thesis by simp
  next
    case (Some elementHref)
    from Cons.prems obtain h where "new_URL P (''catalogue/'' @ elementHref) baseUrl = Inr h"
      by blast
    with Cons Some acc show ?thesis by simp
  qed
qed

lemma constructBookPageUrlsInCatalogPage_fulfilled:
  assumes "\<forall>r. \<exists>h. new_URL P (''catalogue/'' @ r) baseUrl = Inr h"
  shows "\<exists>urls. snd (constructBookPageUrlsInCatalogPage P p baseUrl) = Fulfilled urls"
proof (cases "getHtmlResponse P p")
  case (Inl e)
  then show ?thesis
    by (simp add: constructBookPageUrlsInCatalogPage_def)
next
  case (Inr doc)
  obtain urls errors
    where "reduce_anchors P baseUrl (doc bookAnchorSelector) ([], 0) = Inr (urls, errors)"
    using reduce_anchors_total [OF assms, of "doc bookAnchorSelector" "([], 0)"] by auto
  with Inr show ?thesis
    by (simp add: constructBookPageUrlsInCatalogPage_def)
qed

text \<open>
  Claim C7: for every sequence of catalog pages each of which yields a list of
  item URLs, and for every order in which the page operations complete,
  \<^verbatim>\<open>constructAllBookPageUrls\<close> resolves with the concatenation of the lists in
  the order of the input pages.  With pages A and B, where A yields u1 and B
  yields u2 and u3, the result is u1, u2, u3 whichever page completes first.
  (A page whose fetch fails yields the empty list.)
\<close>

theorem constructAllBookPageUrls_order:
  assumes "\<forall>p \<in> set pages.
             snd (constructBookPageUrlsInCatalogPage P p baseUrl) = Fulfilled (yields p)"
  shows "\<exists>lg. constructAllBookPageUrls P arrival pages baseUrl
               = Some (lg, map Some (concat (map yields pages)))"
  using foldl_concat_value [OF assms, of "[]"]
  by (simp add: constructAllBookPageUrls_eq)

lemma sample_catalog_pages:
  "constructBookPageUrlsInCatalogPage sample_site page_1 BASE_URL = ([], Fulfilled [item_1])"
  "constructBookPageUrlsInCatalogPage sample_site page_2 BASE_URL
     = ([], Fulfilled [item_2, item_3])"
  by code_simp+

theorem constructAllBookPageUrls_order_witness:
  "snd (constructBookPageUrlsInCatalogPage sample_site page_1 BASE_URL) = Fulfilled [item_1]
   \<and> snd (constructBookPageUrlsInCatalogPage sample_site page_2 BASE_URL)
       = Fulfilled [item_2, item_3]
   \<and> (\<exists>lg. constructAllBookPageUrls sample_site last_started_first [page_1, page_2] BASE_URL
              = Some (lg, [Some item_1, Some item_2, Some item_3]))
   \<and> (\<exists>lg. constructAllBookPageUrls sample_site first_started_first [page_1, page_2] BASE_URL
              = Some (lg, [Some item_1, Some item_2, Some item_3]))"
proof -
  have distinct: "page_1 \<noteq> page_2" by code_simp
  have yields: "\<forall>p \<in> set [page_1, page_2].
      snd (constructBookPageUrlsInCatalogPage sample_site p BASE_URL)
        = Fulfilled (if p = page_1 then [item_1] else [item_2, item_3])"
    using distinct by (simp add: sample_catalog_pages)
  show ?thesis
    using constructAllBookPageUrls_order [OF yields, of last_started_first]
      constructAllBookPageUrls_order [OF yields, of first_started_first] distinct
    by (simp add: sample_catalog_pages)
qed

section \<open>The run\<close>

lemma downloadAssets_undefined:
  "downloadAssets P arrival tick None dataDirectory =
     Some ([(LInfo, ''Book data asset download job started'')], [],
           Rejected (TypeError ''Cannot read properties of undefined (reading 'map')''))"
  by (simp add: downloadAssets_def Let_def)

text \<open>
  Claim C1: when the scraping job throws, the error should be logged at the top
  level and \<^verbatim>\<open>downloadAssets\<close> should not be invoked.  The error is caught and
  logged, but the call of \<^verbatim>\<open>downloadAssets\<close> follows the \<^verbatim>\<open>try\<close> statement
  unconditionally: for every run in which the job is rejected with an error e, the
  log continues with the message of e and then with the first entry that
  \<^verbatim>\<open>downloadAssets\<close> writes, and the run ends with the \<^verbatim>\<open>TypeError\<close> that
  \<^verbatim>\<open>bookData.map\<close> raises on the unassigned \<^verbatim>\<open>bookData\<close>.
\<close>

theorem main_after_failed_job:
  assumes "executeBookScrapingJob P arrival_pages arrival_items BASE_URL
             ((case env_DATA_DIR of None \<Rightarrow> ''data'' | Some d \<Rightarrow> d) @ ''/book-data.json'')
           = Some (lg, writes, Rejected e)"
  shows "main P arrival_pages arrival_items arrival_assets env_DATA_DIR =
           Some (lg @ [(LError, message e), (LInfo, ''Book data asset download job started'')],
                 writes,
                 Rejected (TypeError ''Cannot read properties of undefined (reading 'map')''))"
  using assms by (simp add: main_def Let_def downloadAssets_undefined)

lemma job_without_count:
  "executeBookScrapingJob site_without_count first_started_first first_started_first BASE_URL
     ((case None of None \<Rightarrow> ''data'' | Some d \<Rightarrow> d) @ ''/book-data.json'')
   = Some ([(LInfo, ''Book data scraping job started'')], [],
           Rejected CatalogPageCountNotFoundError)"
  by code_simp

theorem main_after_failed_job_witness:
  "executeBookScrapingJob site_without_count first_started_first first_started_first BASE_URL
     ((case None of None \<Rightarrow> ''data'' | Some d \<Rightarrow> d) @ ''/book-data.json'')
   = Some ([(LInfo, ''Book data scraping job started'')], [],
           Rejected CatalogPageCountNotFoundError)
   \<and> main site_without_count first_started_first first_started_first first_started_first None
     = Some ([(LInfo, ''Book data scraping job started''),
              (LError, ''Could not locate or extract total catalog page count''),
              (LInfo, ''Book data asset download job started'')],
             [],
             Rejected (TypeError ''Cannot read properties of undefined (reading 'map')''))"
  using main_after_failed_job [OF job_without_count, of first_started_first] job_without_count
  by simp

section \<open>Asset names\<close>

lemma not_alnum_dot: "\<not> is_alnum CHR ''.''"
  by code_simp

lemma re_alnum_iff: "re_alnum s \<longleftrightarrow> s \<noteq> [] \<and> list_all is_alnum s"
  using not_alnum_dot by (cases s) (auto simp: re_alnum_def)

lemma trailing_alnum_Cons:
  "trailing_alnum (c # cs) = (if list_all is_alnum (c # cs) then c # cs else trailing_alnum cs)"
proof (cases "\<forall>x \<in> set (rev cs). is_alnum x")
  case True
  then have a: "takeWhile is_alnum (rev cs) = rev cs"
    by simp
  have b: "takeWhile is_alnum (rev cs @ [c]) = rev cs @ takeWhile is_alnum [c]"
    using True by (intro takeWhile_append2) auto
  have "list_all is_alnum (c # cs) \<longleftrightarrow> is_alnum c"
    using True by (simp add: list_all_iff)
  then show ?thesis
    by (simp add: trailing_alnum_def a b)
next
  case False
  then obtain x where x: "x \<in> set (rev cs)" "\<not> is_alnum x"
    by blast
  then have c: "takeWhile is_alnum (rev cs @ [c]) = takeWhile is_alnum (rev cs)"
    by (rule takeWhile_append1)
  have "\<not> list_all is_alnum cs"
    using x by (auto simp: list_all_iff)
  then show ?thesis
    by (simp add: trailing_alnum_def c)
qed

lemma match_suffix_alnum:
  "match_suffix re_alnum s = (if trailing_alnum s = [] then None else Some (trailing_alnum s))"
proof (induction s)
  case Nil
  then show ?case by (simp add: trailing_alnum_def)
next
  case (Cons c cs)
  then show ?case
    by (simp add: re_alnum_iff trailing_alnum_Cons)
qed

lemma imageName_eq:
  "imageName d =
     (if trailing_alnum (asset_url d) = []
      then Inl (TypeError ''Cannot read properties of null (reading 'at')'')
      else Inr (asset_identifier d @ ''.'' @ trailing_alnum (asset_url d)))"
  by (simp add: imageName_def match_suffix_alnum at0_def)

lemma trailing_alnum_jpg: "trailing_alnum (stem @ ''.jpg'') = ''jpg''"
proof -
  have "takeWhile is_alnum (''gpj.'' @ rev stem) = ''gpj''"
    by (simp add: is_alnum_def is_digit_def is_upper_def is_lower_def)
  then show ?thesis
    by (simp add: trailing_alnum_def)
qed

lemma map_throwing_total:
  "\<forall>x \<in> set xs. f x = Inr (g x) \<Longrightarrow> map_throwing f xs = Inr (map g xs)"
  by (induction xs) simp_all

text \<open>
  Where every URL ends in at least one letter or digit, and for every order of
  completion, \<^verbatim>\<open>downloadBookImages\<close> names the file of each descriptor by its
  identifier, a dot and the trailing alphanumeric run of its URL, starts one
  download per descriptor to that name resolved in the data directory, and
  resolves with the outcomes of the downloads in the order of the descriptors.
  For the identifier \<^verbatim>\<open>abc123\<close> and a URL ending in \<^verbatim>\<open>.jpg\<close> the name is
  \<^verbatim>\<open>abc123.jpg\<close>.
\<close>

lemma downloadBookImages_names:
  assumes "\<forall>d \<in> set imageData. trailing_alnum (asset_url d) \<noteq> []"
  shows "(\<forall>d \<in> set imageData.
            imageName d = Inr (asset_identifier d @ ''.'' @ trailing_alnum (asset_url d)))
       \<and> downloadBookImages P arrival imageData dataDirectory =
           Some (concat (map (\<lambda>i. fst (downloadAsset P (asset_url (imageData ! i))
                                          (destination P dataDirectory (imageData ! i))))
                           (completion_order arrival (length imageData))),
                 Fulfilled (map (\<lambda>d. snd (downloadAsset P (asset_url d)
                                             (destination P dataDirectory d)))
                              imageData))
       \<and> imageName \<lparr>asset_url = stem @ ''.jpg'', asset_identifier = ''abc123''\<rparr>
           = Inr ''abc123.jpg''"
proof -
  have names: "\<forall>d \<in> set imageData.
      imageName d = Inr (asset_identifier d @ ''.'' @ trailing_alnum (asset_url d))"
    using assms by (simp add: imageName_eq)
  then have "\<forall>d \<in> set imageData.
      and_then (imageFilePath P dataDirectory d)
        (\<lambda>path. Inr (downloadAsset P (asset_url d) path))
      = Inr (downloadAsset P (asset_url d) (destination P dataDirectory d))"
    by (simp add: imageFilePath_def destination_def)
  then have "map_throwing
      (\<lambda>d. and_then (imageFilePath P dataDirectory d)
              (\<lambda>path. Inr (downloadAsset P (asset_url d) path))) imageData
      = Inr (map (\<lambda>d. downloadAsset P (asset_url d) (destination P dataDirectory d)) imageData)"
    by (rule map_throwing_total)
  then have "downloadBookImages P arrival imageData dataDirectory =
           Some (concat (map (\<lambda>i. fst (downloadAsset P (asset_url (imageData ! i))
                                          (destination P dataDirectory (imageData ! i))))
                           (completion_order arrival (length imageData))),
                 Fulfilled (map (\<lambda>d. snd (downloadAsset P (asset_url d)
                                             (destination P dataDirectory d)))
                              imageData))"
    by (simp add: downloadBookImages_def allSettled_map)
  moreover have "imageName \<lparr>asset_url = stem @ ''.jpg'', asset_identifier = ''abc123''\<rparr>
           = Inr ''abc123.jpg''"
    by (simp add: imageName_eq trailing_alnum_jpg)
  ultimately show ?thesis
    using names by simp
qed

lemma jpg_asset_samples:
  "trailing_alnum (asset_url jpg_asset) = ''jpg''"
  "completion_order first_started_first (length [jpg_asset]) = [0]"
  "asset_identifier jpg_asset = ''abc123''"
  "downloadAsset sample_site (asset_url jpg_asset) (destination sample_site ''data/assets'' jpg_asset)
     = ([Asset_file ''data/assets/abc123.jpg'' ''image bytes''], Fulfilled True)"
  by code_simp+

lemma downloadBookImages_names_sample:
  "trailing_alnum (asset_url jpg_asset) \<noteq> []
   \<and> imageName jpg_asset = Inr ''abc123.jpg''
   \<and> downloadBookImages sample_site first_started_first [jpg_asset] ''data/assets''
       = Some ([Asset_file ''data/assets/abc123.jpg'' ''image bytes''], Fulfilled [Fulfilled True])"
proof -
  have h: "\<forall>d \<in> set [jpg_asset]. trailing_alnum (asset_url d) \<noteq> []"
    by (simp add: jpg_asset_samples)
  show ?thesis
    using downloadBookImages_names [OF h, of sample_site first_started_first "''data/assets''"]
    unfolding jpg_asset_samples(2)
    by (simp add: jpg_asset_samples)
qed

lemma map_throwing_fails:
  "x \<in> set xs \<Longrightarrow> f x = Inl e \<Longrightarrow> \<forall>y \<in> set xs. \<forall>e'. f y = Inl e' \<longrightarrow> e' = e \<Longrightarrow>
   map_throwing f xs = Inl e"
proof (induction xs)
  case Nil
  then show ?case by simp
next
  case (Cons y ys)
  show ?case
  proof (cases "f y")
    case (Inl e')
    from Cons.prems(3) have "f y = Inl e' \<longrightarrow> e' = e"
      by (simp only: list.set_intros ball_simps set_simps) blast
    with Inl have "f y = Inl e" by blast
    then show ?thesis by simp
  next
    case (Inr v)
    with Cons.prems(1,2) have mem: "x \<in> set ys" by auto
    from Cons.prems(3) have rest: "\<forall>y \<in> set ys. \<forall>e'. f y = Inl e' \<longrightarrow> e' = e"
      by (meson list.set_intros(2))
    have "map_throwing f ys = Inl e"
      using mem Cons.prems(2) rest by (rule Cons.IH)
    with Inr show ?thesis by simp
  qed
qed

text \<open>
  Claim C9: the file of every asset descriptor should be named by its identifier,
  a dot and the trailing alphanumeric run of its URL.  The extension is read with
  \<^verbatim>\<open>.match(...).at(0)\<close> without a guard.  For a URL that ends in a character other
  than a letter or digit there is no match, the read throws inside the mapping
  callback, and \<^verbatim>\<open>downloadBookImages\<close> itself is rejected: whenever one
  descriptor of the list has such a URL, no name is derived for it and the whole
  call fails with \<^verbatim>\<open>TypeError\<close>, before the wait-for-all collection is reached
  and whatever the other descriptors are.
\<close>

theorem downloadBookImages_rejected:
  assumes "d \<in> set imageData" and "trailing_alnum (asset_url d) = []"
  shows "imageName d = Inl (TypeError ''Cannot read properties of null (reading 'at')'')
       \<and> imageName d \<noteq> Inr (asset_identifier d @ ''.'' @ trailing_alnum (asset_url d))
       \<and> downloadBookImages P arrival imageData dataDirectory
           = Some ([], Rejected (TypeError ''Cannot read properties of null (reading 'at')''))"
proof -
  let ?e = "TypeError ''Cannot read properties of null (reading 'at')''"
  let ?f = "\<lambda>imageDatum. and_then (imageFilePath P dataDirectory imageDatum)
              (\<lambda>path. Inr (downloadAsset P (asset_url imageDatum) path))"
  have name: "imageName d = Inl ?e"
    using assms(2) by (simp add: imageName_eq)
  then have here: "?f d = Inl ?e"
    by (simp add: imageFilePath_def)
  have same: "\<forall>y \<in> set imageData. \<forall>e'. ?f y = Inl e' \<longrightarrow> e' = ?e"
  proof (intro ballI allI impI)
    fix y e'
    assume "?f y = Inl e'"
    then show "e' = ?e"
      by (cases "trailing_alnum (asset_url y) = []")
         (simp_all add: imageFilePath_def imageName_eq)
  qed
  have "map_throwing ?f imageData = Inl ?e"
    using assms(1) here same by (rule map_throwing_fails)
  then have "downloadBookImages P arrival imageData dataDirectory = Some ([], Rejected ?e)"
    by (simp add: downloadBookImages_def)
  with name show ?thesis by simp
qed

lemma directory_asset_samples:
  "trailing_alnum (asset_url directory_asset) = []"
  "imageName jpg_asset = Inr ''abc123.jpg''"
  by code_simp+

theorem downloadBookImages_rejected_witness:
  "directory_asset \<in> set [jpg_asset, directory_asset]
   \<and> trailing_alnum (asset_url directory_asset) = []
   \<and> imageName jpg_asset = Inr ''abc123.jpg''
   \<and> imageName directory_asset
       = Inl (TypeError ''Cannot read properties of null (reading 'at')'')
   \<and> downloadBookImages sample_site first_started_first [jpg_asset, directory_asset]
         ''data/assets''
       = Some ([], Rejected (TypeError ''Cannot read properties of null (reading 'at')''))"
proof -
  have m: "directory_asset \<in> set [jpg_asset, directory_asset]"
    by simp
  show ?thesis
    using m directory_asset_samples
      downloadBookImages_rejected [OF m directory_asset_samples(1),
        of sample_site first_started_first "''data/assets''"]
    by simp
qed

end
